theory Spec2Isabelle
  imports Complex_Main "HOL-Library.Sublist" "HOL-Library.AList"
begin

section \<open>Python values\<close>

text \<open>
  The controller of \<^verbatim>\<open>backend/ai/conversation_controller.py\<close> handles values decoded
  from JSON text (\<^verbatim>\<open>json.loads\<close>) and dictionaries built from them. They are modelled by
  one datatype of Python values. A dictionary is an association list in insertion order
  with string keys; a float is the rational it denotes, or one of the three special
  values that \<^verbatim>\<open>json.loads\<close> also accepts. A \<open>char\<close> stands for one code point below 256.
\<close>

datatype pyfloat = Finite rat | PosInf | NegInf | NaN

datatype pyval =
    PNone
  | PBool bool
  | PInt int
  | PFloat pyfloat
  | PStr string
  | PList "pyval list"
  | PDict "(string \<times> pyval) list"

text \<open>
  Exceptions are values. Every class below is a subclass of \<^verbatim>\<open>Exception\<close>, so each is
  caught by an \<^verbatim>\<open>except Exception\<close> clause; the argument is the text of \<^verbatim>\<open>str(e)\<close>.
\<close>

datatype py_error =
    ValueError string
  | TypeError string
  | AttributeError string
  | KeyError string
  | JSONDecodeError string
  | OtherException string

fun exc_str :: "py_error \<Rightarrow> string" where
  "exc_str (ValueError m) = m"
| "exc_str (TypeError m) = m"
| "exc_str (AttributeError m) = m"
| "exc_str (KeyError m) = m"
| "exc_str (JSONDecodeError m) = m"
| "exc_str (OtherException m) = m"

fun type_name :: "pyval \<Rightarrow> string" where
  "type_name PNone = ''NoneType''"
| "type_name (PBool b) = ''bool''"
| "type_name (PInt i) = ''int''"
| "type_name (PFloat f) = ''float''"
| "type_name (PStr s) = ''str''"
| "type_name (PList xs) = ''list''"
| "type_name (PDict kvs) = ''dict''"

text \<open>Truth value of an object, as \<^verbatim>\<open>if x:\<close>, \<^verbatim>\<open>x and y\<close> and \<^verbatim>\<open>x or y\<close> test it.\<close>

fun py_truthy :: "pyval \<Rightarrow> bool" where
  "py_truthy PNone = False"
| "py_truthy (PBool b) = b"
| "py_truthy (PInt i) = (i \<noteq> 0)"
| "py_truthy (PFloat f) = (f \<noteq> Finite 0)"
| "py_truthy (PStr s) = (s \<noteq> [])"
| "py_truthy (PList xs) = (xs \<noteq> [])"
| "py_truthy (PDict kvs) = (kvs \<noteq> [])"

definition py_or :: "pyval \<Rightarrow> pyval \<Rightarrow> pyval" where
  "py_or x y = (if py_truthy x then x else y)"

text \<open>\<^verbatim>\<open>len(x)\<close>: defined on strings, lists and dictionaries, a \<^verbatim>\<open>TypeError\<close> elsewhere.\<close>

fun py_len :: "pyval \<Rightarrow> py_error + nat" where
  "py_len (PStr s) = Inr (length s)"
| "py_len (PList xs) = Inr (length xs)"
| "py_len (PDict kvs) = Inr (length kvs)"
| "py_len v = Inl (TypeError (''object of type '' @ [CHR 0x27] @ type_name v @ [CHR 0x27] @ '' has no len()''))"

text \<open>\<^verbatim>\<open>for x in v\<close>: the elements of a list, the keys of a dictionary, the characters of a string.\<close>

fun py_iter :: "pyval \<Rightarrow> py_error + pyval list" where
  "py_iter (PList xs) = Inr xs"
| "py_iter (PDict kvs) = Inr (map (\<lambda>kv. PStr (fst kv)) kvs)"
| "py_iter (PStr s) = Inr (map (\<lambda>c. PStr [c]) s)"
| "py_iter v = Inl (TypeError ([CHR 0x27] @ type_name v @ [CHR 0x27] @ '' object is not iterable''))"

text \<open>\<^verbatim>\<open>d.get(key, default)\<close>: only a dictionary has the method.\<close>

fun py_get :: "pyval \<Rightarrow> string \<Rightarrow> pyval \<Rightarrow> py_error + pyval" where
  "py_get (PDict kvs) k d = Inr (case map_of kvs k of None \<Rightarrow> d | Some v \<Rightarrow> v)"
| "py_get v k d =
     Inl (AttributeError ([CHR 0x27] @ type_name v @ [CHR 0x27] @ '' object has no attribute '' @ [CHR 0x27] @ ''get'' @ [CHR 0x27]))"

text \<open>\<^verbatim>\<open>{**v, ...}\<close>: unpacking needs a mapping.\<close>

fun py_unpack :: "pyval \<Rightarrow> py_error + (string \<times> pyval) list" where
  "py_unpack (PDict kvs) = Inr kvs"
| "py_unpack v = Inl (TypeError ([CHR 0x27] @ type_name v @ [CHR 0x27] @ '' object is not a mapping''))"

section \<open>Conversation states and turns\<close>

datatype ConversationState =
    INITIAL
  | AWAITING_USER_INPUT
  | ANALYZING
  | AWAITING_CONFIRMATION
  | EXECUTING
  | ERROR

fun ConversationState_value :: "ConversationState \<Rightarrow> string" where
  "ConversationState_value INITIAL = ''initial''"
| "ConversationState_value AWAITING_USER_INPUT = ''awaiting_user_input''"
| "ConversationState_value ANALYZING = ''analyzing''"
| "ConversationState_value AWAITING_CONFIRMATION = ''awaiting_confirmation''"
| "ConversationState_value EXECUTING = ''executing''"
| "ConversationState_value ERROR = ''error''"

datatype ActionStatus = PROPOSED | CONFIRMED | REJECTED | EXECUTED | FAILED

fun ActionStatus_value :: "ActionStatus \<Rightarrow> string" where
  "ActionStatus_value PROPOSED = ''proposed''"
| "ActionStatus_value CONFIRMED = ''confirmed''"
| "ActionStatus_value REJECTED = ''rejected''"
| "ActionStatus_value EXECUTED = ''executed''"
| "ActionStatus_value FAILED = ''failed''"

record ConversationTurn =
  user_input :: "string option"
  ai_response :: "string option"
  proposed_actions :: pyval
  confirmed :: bool
  executed_actions :: pyval
  timestamp :: pyval

text \<open>
  \<^verbatim>\<open>ConversationTurn.__init__\<close>: an argument left out is \<^verbatim>\<open>None\<close> (\<open>PNone\<close> for the two
  lists), \<^verbatim>\<open>x or []\<close> replaces a falsy list argument by a new empty list, and the timestamp
  starts as \<^verbatim>\<open>None\<close>.
\<close>

definition ConversationTurn_init ::
  "string option \<Rightarrow> string option \<Rightarrow> pyval \<Rightarrow> bool \<Rightarrow> pyval \<Rightarrow> ConversationTurn" where
  "ConversationTurn_init ui ar pa cf ea =
     \<lparr> user_input = ui,
       ai_response = ar,
       proposed_actions = py_or pa (PList []),
       confirmed = cf,
       executed_actions = py_or ea (PList []),
       timestamp = PNone \<rparr>"

record Conversation =
  conversation_id :: "string option"
  turns :: "ConversationTurn list"
  state :: ConversationState
  current_turn :: "ConversationTurn option"
  metadata :: "(string \<times> pyval) list"

definition Conversation_init :: "string option \<Rightarrow> Conversation" where
  "Conversation_init cid =
     \<lparr> conversation_id = cid,
       turns = [],
       state = INITIAL,
       current_turn = None,
       metadata = [] \<rparr>"

text \<open>
  \<^verbatim>\<open>Conversation.start_new_turn\<close>. An instance of \<^verbatim>\<open>ConversationTurn\<close> is always truthy, so
  \<^verbatim>\<open>if self.current_turn:\<close> tests for \<^verbatim>\<open>None\<close>. The method returns the new turn, which is
  the \<open>current_turn\<close> of the conversation returned here.
\<close>

definition start_new_turn :: "Conversation \<Rightarrow> string \<Rightarrow> Conversation" where
  "start_new_turn c ui =
     (let c1 = (case current_turn c of
                  Some t \<Rightarrow> c\<lparr>turns := turns c @ [t]\<rparr>
                | None \<Rightarrow> c)
      in c1\<lparr>current_turn := Some (ConversationTurn_init (Some ui) None PNone False PNone),
            state := ANALYZING\<rparr>)"

definition set_proposed_actions :: "Conversation \<Rightarrow> string \<Rightarrow> pyval \<Rightarrow> py_error + Conversation" where
  "set_proposed_actions c ar pa =
     (case current_turn c of
        None \<Rightarrow> Inl (ValueError ''No active conversation turn'')
      | Some t \<Rightarrow>
          Inr (c\<lparr>current_turn := Some (t\<lparr>ai_response := Some ar, proposed_actions := pa\<rparr>),
                 state := AWAITING_CONFIRMATION\<rparr>))"

definition set_confirmation :: "Conversation \<Rightarrow> bool \<Rightarrow> py_error + Conversation" where
  "set_confirmation c cf =
     (case current_turn c of
        None \<Rightarrow> Inl (ValueError ''No active conversation turn'')
      | Some t \<Rightarrow>
          (let t1 = t\<lparr>confirmed := cf\<rparr>
           in if cf then Inr (c\<lparr>current_turn := Some t1, state := EXECUTING\<rparr>)
              else Inr (c\<lparr>turns := turns c @ [t1],
                          current_turn := None,
                          state := AWAITING_USER_INPUT\<rparr>)))"

definition set_executed_actions :: "Conversation \<Rightarrow> pyval \<Rightarrow> py_error + Conversation" where
  "set_executed_actions c ea =
     (case current_turn c of
        None \<Rightarrow> Inl (ValueError ''No active conversation turn'')
      | Some t \<Rightarrow>
          Inr (c\<lparr>turns := turns c @ [t\<lparr>executed_actions := ea\<rparr>],
                 current_turn := None,
                 state := AWAITING_USER_INPUT\<rparr>))"

text \<open>
  The conversations that the methods above build from a new one. Deserialisation
  (\<^verbatim>\<open>from_dict\<close>) is not one of the operations of the state machine.
\<close>

inductive reachable :: "Conversation \<Rightarrow> bool" where
  r_init: "reachable (Conversation_init cid)"
| r_start: "reachable c \<Longrightarrow> reachable (start_new_turn c ui)"
| r_propose: "reachable c \<Longrightarrow> set_proposed_actions c ar pa = Inr c' \<Longrightarrow> reachable c'"
| r_confirm: "reachable c \<Longrightarrow> set_confirmation c cf = Inr c' \<Longrightarrow> reachable c'"
| r_executed: "reachable c \<Longrightarrow> set_executed_actions c ea = Inr c' \<Longrightarrow> reachable c'"

section \<open>Strings\<close>

text \<open>
  \<^verbatim>\<open>str.strip()\<close> removes leading and trailing whitespace; below code point 256 the
  whitespace characters are 9 to 13, 28 to 32, 133 and 160.
\<close>

definition is_space :: "char \<Rightarrow> bool" where
  "is_space c =
     (let n = (of_char c :: nat)
      in (9 \<le> n \<and> n \<le> 13) \<or> (28 \<le> n \<and> n \<le> 32) \<or> n = 133 \<or> n = 160)"

definition strip :: "string \<Rightarrow> string" where
  "strip s = rev (dropWhile is_space (rev (dropWhile is_space s)))"

text \<open>
  \<^verbatim>\<open>s.find(sub, start)\<close>: the lowest index from \<open>start\<close> on at which \<open>sub\<close> begins, and
  \<^verbatim>\<open>-1\<close> (here \<open>None\<close>) when there is none.
\<close>

fun find_from :: "string \<Rightarrow> string \<Rightarrow> nat \<Rightarrow> nat option" where
  "find_from sub [] i = (if sub = [] then Some i else None)"
| "find_from sub (c # cs) i =
     (if prefix sub (c # cs) then Some i else find_from sub cs (Suc i))"

definition py_find :: "string \<Rightarrow> string \<Rightarrow> nat \<Rightarrow> nat option" where
  "py_find s sub start =
     (if start \<le> length s then find_from sub (drop start s) start else None)"

text \<open>\<^verbatim>\<open>s[a:b]\<close> and \<^verbatim>\<open>xs[i:]\<close>; a negative \<open>i\<close> counts from the end.\<close>

definition py_slice :: "'a list \<Rightarrow> nat \<Rightarrow> nat \<Rightarrow> 'a list" where
  "py_slice s a b = take (b - a) (drop a s)"

definition py_slice_from :: "'a list \<Rightarrow> int \<Rightarrow> 'a list" where
  "py_slice_from xs i =
     (if i < 0 then drop (nat (int (length xs) + i)) xs else drop (nat i) xs)"

fun py_join :: "string \<Rightarrow> string list \<Rightarrow> string" where
  "py_join sep [] = []"
| "py_join sep [x] = x"
| "py_join sep (x # y # ys) = x @ sep @ py_join sep (y # ys)"

fun str_of_nat :: "nat \<Rightarrow> string" where
  "str_of_nat n =
     (if n < 10 then [char_of (48 + n)]
      else str_of_nat (n div 10) @ [char_of (48 + n mod 10)])"

declare str_of_nat.simps [simp del]

text \<open>\<^verbatim>\<open>key in v\<close> and \<^verbatim>\<open>v[key]\<close> for a string key.\<close>

fun py_contains :: "pyval \<Rightarrow> string \<Rightarrow> py_error + bool" where
  "py_contains (PDict kvs) k = Inr (map_of kvs k \<noteq> None)"
| "py_contains (PList xs) k = Inr (PStr k \<in> set xs)"
| "py_contains (PStr s) k = Inr (py_find s k 0 \<noteq> None)"
| "py_contains v k =
     Inl (TypeError (''argument of type '' @ [CHR 0x27] @ type_name v @ [CHR 0x27] @ '' is not iterable''))"

fun py_getitem :: "pyval \<Rightarrow> string \<Rightarrow> py_error + pyval" where
  "py_getitem (PDict kvs) k =
     (case map_of kvs k of
        None \<Rightarrow> Inl (KeyError ([CHR 0x27] @ k @ [CHR 0x27]))
      | Some v \<Rightarrow> Inr v)"
| "py_getitem (PList xs) k = Inl (TypeError ''list indices must be integers or slices, not str'')"
| "py_getitem (PStr s) k = Inl (TypeError ''string indices must be integers'')"
| "py_getitem v k =
     Inl (TypeError ([CHR 0x27] @ type_name v @ [CHR 0x27] @ '' object is not subscriptable''))"

section \<open>The action proposal extractor\<close>

text \<open>
  \<^verbatim>\<open>ConversationalFlowController._extract_actions_from_response\<close>. The JSON decoder
  \<^verbatim>\<open>json.loads\<close> is a parameter \<open>loads\<close>; \<open>Inl\<close> is the exception it raises.
  \<open>extract_try\<close> is the body of the \<^verbatim>\<open>try\<close> statement: \<open>Inr (Some r)\<close> is its
  \<^verbatim>\<open>return\<close>, \<open>Inr None\<close> leaves the statement without returning, \<open>Inl e\<close> is an
  exception, which the \<^verbatim>\<open>except Exception: pass\<close> clause swallows.
\<close>

definition fence_json :: string where
  "fence_json = ''```json''"

definition fence :: string where
  "fence = ''```''"

definition extract_try ::
  "(string \<Rightarrow> py_error + pyval) \<Rightarrow> string \<Rightarrow> py_error + (string \<times> pyval) option" where
  "extract_try loads response =
     (case py_find response fence_json 0 of
        None \<Rightarrow> Inr None
      | Some json_start \<Rightarrow>
          (case py_find response fence (json_start + 6) of
             None \<Rightarrow> Inr None
           | Some json_end \<Rightarrow>
               (case loads (strip (py_slice response (json_start + 7) json_end)) of
                  Inl e \<Rightarrow> Inl e
                | Inr action_data \<Rightarrow>
                    (case py_contains action_data ''proposed_actions'' of
                       Inl e \<Rightarrow> Inl e
                     | Inr has_key \<Rightarrow>
                         (case (if has_key then py_getitem action_data ''proposed_actions''
                                else Inr (PList [])) of
                            Inl e \<Rightarrow> Inl e
                          | Inr proposed \<Rightarrow>
                              Inr (Some (strip (take json_start response @ drop (json_end + 3) response),
                                         proposed)))))))"

definition extract_actions_from_response ::
  "(string \<Rightarrow> py_error + pyval) \<Rightarrow> string \<Rightarrow> string \<times> pyval" where
  "extract_actions_from_response loads response =
     (case extract_try loads response of
        Inr (Some r) \<Rightarrow> r
      | Inr None \<Rightarrow> (response, PList [])
      | Inl e \<Rightarrow> (response, PList []))"

section \<open>Rendering the history\<close>

definition format_optional :: "string option \<Rightarrow> string" where
  "format_optional x = (case x of None \<Rightarrow> ''None'' | Some s \<Rightarrow> s)"

definition render_turn :: "string \<Rightarrow> nat \<times> ConversationTurn \<Rightarrow> string" where
  "render_turn history it =
     (let i = fst it; turn = snd it;
          h1 = history @ ''Turn '' @ str_of_nat (i + 1) @ '':'' @ [CHR 0x0A];
          h2 = h1 @ ''User: '' @ format_optional (user_input turn) @ [CHR 0x0A];
          h3 = (case ai_response turn of
                  None \<Rightarrow> h2
                | Some r \<Rightarrow> if r \<noteq> [] then h2 @ ''AI: '' @ r @ [CHR 0x0A] else h2);
          h4 = (if confirmed turn then h3 @ ''User confirmed actions.'' @ [CHR 0x0A]
                else h3 @ ''User rejected actions.'' @ [CHR 0x0A])
      in h4 @ [CHR 0x0A])"

definition get_context_for_ai :: "Conversation \<Rightarrow> int \<Rightarrow> string" where
  "get_context_for_ai c max_turns =
     (let recent_turns = (if length (turns c) > 0 then py_slice_from (turns c) (- max_turns) else []);
          history = foldl render_turn [] (enumerate 0 recent_turns)
      in case current_turn c of
           None \<Rightarrow> history
         | Some t \<Rightarrow>
             (case user_input t of
                None \<Rightarrow> history
              | Some u \<Rightarrow>
                  if u \<noteq> [] then history @ ''Current Turn:'' @ [CHR 0x0A] @ ''User: '' @ u @ [CHR 0x0A]
                  else history))"

section \<open>The reasoning-service client\<close>

text \<open>
  \<^verbatim>\<open>AIManager.query\<close> of \<^verbatim>\<open>backend/ai/manager.py\<close>, as far as the controller reads its
  result: the key \<^verbatim>\<open>response\<close>, and the key \<^verbatim>\<open>error\<close> of the dictionary that the
  \<^verbatim>\<open>except\<close> clause returns. \<open>build_prompt\<close> stands for \<^verbatim>\<open>_build_prompt\<close>, which runs
  before the \<^verbatim>\<open>try\<close> statement, and \<open>chat\<close> for the body of the \<^verbatim>\<open>try\<close> statement up to
  the content of the completion.
\<close>

datatype query_result = Answer string | Failure string string

fun response_of :: "query_result \<Rightarrow> string" where
  "response_of (Answer content) = content"
| "response_of (Failure err resp) = resp"

definition AIManager_query ::
  "(string \<Rightarrow> pyval list \<Rightarrow> py_error + string) \<Rightarrow> (string \<Rightarrow> pyval list \<Rightarrow> py_error + string) \<Rightarrow>
   string \<Rightarrow> pyval list \<Rightarrow> py_error + query_result" where
  "AIManager_query build_prompt chat prompt context =
     (case build_prompt prompt context of
        Inl e \<Rightarrow> Inl e
      | Inr full_prompt \<Rightarrow>
          (case chat full_prompt context of
             Inr content \<Rightarrow> Inr (Answer content)
           | Inl e \<Rightarrow> Inr (Failure (exc_str e) (''An error occurred: '' @ exc_str e))))"

section \<open>The flow controller: user input\<close>

text \<open>
  \<^verbatim>\<open>ConversationalFlowController.process_user_input\<close>. The caller's context list is an
  object that the method may change, so list objects live in a heap: an address is an
  index, and a new list is allocated at the end. \<open>context\<close> is \<open>None\<close> or the address of
  the caller's list. The client's \<^verbatim>\<open>query\<close> is a parameter, which may raise. The result is
  the returned dictionary or the exception, with the conversation and the heap as the
  call leaves them.
\<close>

text \<open>
  \<^verbatim>\<open>_create_analysis_prompt\<close> returns an f-string. Its two intended fields,
  \<^verbatim>\<open>{conversation_history}\<close> and \<^verbatim>\<open>{user_input}\<close>, format without error, but the braces
  of the JSON example at the end of the template are not doubled, so they are replacement
  fields too, nested three deep. The innermost, \<^verbatim>\<open>{"name": "category", "confidence": 0.9}\<close>,
  is evaluated first: it formats the string \<^verbatim>\<open>"name"\<close> with the text after the colon as
  its format specifier, which \<^verbatim>\<open>str\<close> rejects. So the function raises \<^verbatim>\<open>ValueError\<close> on
  every call and never returns a prompt (CPython 3.12; earlier versions refuse the
  nesting when they compile the module).
\<close>

definition template_example_spec :: string where
  \<open>template_example_spec = '' "category", "confidence": 0.9''\<close>

definition create_analysis_prompt :: "string \<Rightarrow> string \<Rightarrow> py_error + string" where
  "create_analysis_prompt ui conversation_history =
     Inl (ValueError (''Invalid format specifier '' @ [CHR 0x27] @ template_example_spec @ [CHR 0x27]
            @ '' for object of type '' @ [CHR 0x27] @ ''str'' @ [CHR 0x27]))"

type_synonym heap = "pyval list list"

definition history_entry :: "string \<Rightarrow> pyval" where
  "history_entry conversation_history =
     PDict [(''type'', PStr ''conversation_history''), (''content'', PStr conversation_history)]"

definition merge_context :: "nat option \<Rightarrow> heap \<Rightarrow> nat \<times> heap" where
  "merge_context context h =
     (case context of
        None \<Rightarrow> (length h, h @ [[]])
      | Some a \<Rightarrow> if h ! a \<noteq> [] then (a, h) else (length h, h @ [[]]))"

definition append_history :: "string \<Rightarrow> nat \<Rightarrow> heap \<Rightarrow> heap" where
  "append_history conversation_history merged_context h =
     (if conversation_history \<noteq> []
      then h[merged_context := h ! merged_context @ [history_entry conversation_history]]
      else h)"

definition process_user_input ::
  "(string \<Rightarrow> pyval list \<Rightarrow> py_error + query_result) \<Rightarrow>
   (string \<Rightarrow> py_error + pyval) \<Rightarrow>
   Conversation \<Rightarrow> string \<Rightarrow> nat option \<Rightarrow> heap \<Rightarrow>
   (py_error + pyval) \<times> Conversation \<times> heap" where
  "process_user_input query loads conversation ui context h =
     (let c1 = start_new_turn conversation ui;
          conversation_history = get_context_for_ai c1 5
      in case create_analysis_prompt ui conversation_history of
           Inl e \<Rightarrow> (Inl e, c1, h)
         | Inr prompt \<Rightarrow>
             (let merged_context = fst (merge_context context h);
                  h1 = snd (merge_context context h);
                  h2 = append_history conversation_history merged_context h1
              in case query prompt (h2 ! merged_context) of
                   Inl e \<Rightarrow> (Inl e, c1, h2)
                 | Inr result \<Rightarrow>
                     (let ex = extract_actions_from_response loads (response_of result);
                          response_text = fst ex;
                          proposed = snd ex
                      in case set_proposed_actions c1 response_text proposed of
                           Inl e \<Rightarrow> (Inl e, c1, h2)
                         | Inr c2 \<Rightarrow>
                             (case py_len proposed of
                                Inl e \<Rightarrow> (Inl e, c2, h2)
                              | Inr n \<Rightarrow>
                                  (Inr (PDict [(''response'', PStr response_text),
                                               (''proposed_actions'', proposed),
                                               (''requires_confirmation'', PBool (n > 0)),
                                               (''conversation_state'',
                                                  PStr (ConversationState_value (state c2)))]),
                                   c2, h2)))))"

section \<open>The flow controller: confirmation and dispatch\<close>

text \<open>
  A handler receives the action and acts on the world outside the controller (the graph
  store): it takes the world and returns it changed, with its result or the exception it
  raises. The registry \<^verbatim>\<open>action_handlers\<close> is \<open>None\<close> or a dictionary. \<open>str_of\<close> stands
  for \<^verbatim>\<open>str()\<close> on a value that is not a string, as the formatted messages need it.
\<close>

type_synonym 'w handler = "pyval \<Rightarrow> 'w \<Rightarrow> (py_error + pyval) \<times> 'w"

definition py_format :: "(pyval \<Rightarrow> string) \<Rightarrow> pyval \<Rightarrow> string" where
  "py_format str_of v = (case v of PStr s \<Rightarrow> s | _ \<Rightarrow> str_of v)"

text \<open>
  \<^verbatim>\<open>action_handlers and action_type in action_handlers\<close>, followed by
  \<^verbatim>\<open>action_handlers[action_type]\<close>: \<open>None\<close> and the empty dictionary are falsy, and
  membership hashes the key, which a list or a dictionary does not allow. The keys of the
  registry are strings, so no other value is among them.
\<close>

definition find_handler ::
  "(string \<times> 'w handler) list option \<Rightarrow> pyval \<Rightarrow> py_error + 'w handler option" where
  "find_handler action_handlers action_type =
     (case action_handlers of
        None \<Rightarrow> Inr None
      | Some hs \<Rightarrow>
          if hs = [] then Inr None
          else (case action_type of
                  PStr s \<Rightarrow> Inr (map_of hs s)
                | PList xs \<Rightarrow> Inl (TypeError (''unhashable type: '' @ [CHR 0x27] @ ''list'' @ [CHR 0x27]))
                | PDict kvs \<Rightarrow> Inl (TypeError (''unhashable type: '' @ [CHR 0x27] @ ''dict'' @ [CHR 0x27]))
                | _ \<Rightarrow> Inr None))"

text \<open>The body of the \<^verbatim>\<open>try\<close> statement of the loop: the executed action and the error list.\<close>

definition try_action ::
  "(pyval \<Rightarrow> string) \<Rightarrow> (string \<times> 'w handler) list option \<Rightarrow> pyval \<Rightarrow> string list \<Rightarrow> 'w \<Rightarrow>
   (py_error + pyval \<times> string list) \<times> 'w" where
  "try_action str_of action_handlers action errors w =
     (case py_get action ''type'' (PStr ''unknown'') of
        Inl e \<Rightarrow> (Inl e, w)
      | Inr action_type \<Rightarrow>
          (case find_handler action_handlers action_type of
             Inl e \<Rightarrow> (Inl e, w)
           | Inr (Some handler) \<Rightarrow>
               (case handler action w of
                  (Inl e, w1) \<Rightarrow> (Inl e, w1)
                | (Inr result, w1) \<Rightarrow>
                    (case py_unpack action of
                       Inl e \<Rightarrow> (Inl e, w1)
                     | Inr kvs \<Rightarrow>
                         (Inr (PDict (AList.update ''result'' result
                                 (AList.update ''status'' (PStr (ActionStatus_value EXECUTED)) kvs)),
                               errors), w1)))
           | Inr None \<Rightarrow>
               (case py_unpack action of
                  Inl e \<Rightarrow> (Inl e, w)
                | Inr kvs \<Rightarrow>
                    (Inr (PDict (AList.update ''error'' (PStr ''No handler available'')
                            (AList.update ''status'' (PStr (ActionStatus_value FAILED)) kvs)),
                          errors @ [''No handler available for action type: '' @ py_format str_of action_type]),
                     w))))"

text \<open>The \<^verbatim>\<open>except Exception as e\<close> clause; what it raises itself leaves the loop.\<close>

definition except_action ::
  "(pyval \<Rightarrow> string) \<Rightarrow> pyval \<Rightarrow> py_error \<Rightarrow> string list \<Rightarrow> py_error + pyval \<times> string list" where
  "except_action str_of action e errors =
     (case py_unpack action of
        Inl e1 \<Rightarrow> Inl e1
      | Inr kvs \<Rightarrow>
          (case py_get action ''type'' (PStr ''unknown'') of
             Inl e1 \<Rightarrow> Inl e1
           | Inr ty \<Rightarrow>
               Inr (PDict (AList.update ''error'' (PStr (exc_str e))
                      (AList.update ''status'' (PStr (ActionStatus_value FAILED)) kvs)),
                    errors @ [''Error executing '' @ py_format str_of ty @ '' action: '' @ exc_str e])))"

definition execute_action ::
  "(pyval \<Rightarrow> string) \<Rightarrow> (string \<times> 'w handler) list option \<Rightarrow> pyval \<Rightarrow> string list \<Rightarrow> 'w \<Rightarrow>
   (py_error + pyval \<times> string list) \<times> 'w" where
  "execute_action str_of action_handlers action errors w =
     (case try_action str_of action_handlers action errors w of
        (Inl e, w1) \<Rightarrow> (except_action str_of action e errors, w1)
      | (Inr r, w1) \<Rightarrow> (Inr r, w1))"

text \<open>The \<^verbatim>\<open>for\<close> loop, with the lists \<^verbatim>\<open>executed_actions\<close> and \<^verbatim>\<open>errors\<close> it appends to.\<close>

fun run_actions ::
  "(pyval \<Rightarrow> string) \<Rightarrow> (string \<times> 'w handler) list option \<Rightarrow> pyval list \<Rightarrow> pyval list \<Rightarrow>
   string list \<Rightarrow> 'w \<Rightarrow> (py_error + pyval list \<times> string list) \<times> 'w" where
  "run_actions str_of action_handlers [] executed errors w = (Inr (executed, errors), w)"
| "run_actions str_of action_handlers (action # rest) executed errors w =
     (case execute_action str_of action_handlers action errors w of
        (Inl e, w1) \<Rightarrow> (Inl e, w1)
      | (Inr (executed_action, errors1), w1) \<Rightarrow>
          run_actions str_of action_handlers rest (executed @ [executed_action]) errors1 w1)"

definition execute_proposed ::
  "(pyval \<Rightarrow> string) \<Rightarrow> (string \<times> 'w handler) list option \<Rightarrow> Conversation \<Rightarrow> 'w \<Rightarrow>
   (py_error + pyval list \<times> string list) \<times> 'w" where
  "execute_proposed str_of action_handlers c w =
     (case current_turn c of
        None \<Rightarrow> (Inr ([], []), w)
      | Some t \<Rightarrow>
          if py_truthy (proposed_actions t)
          then (case py_iter (proposed_actions t) of
                  Inl e \<Rightarrow> (Inl e, w)
                | Inr actions \<Rightarrow> run_actions str_of action_handlers actions [] [] w)
          else (Inr ([], []), w))"

definition confirmation_response :: "string list \<Rightarrow> string" where
  "confirmation_response errors =
     (if errors \<noteq> [] then ''Some actions could not be completed: '' @ py_join ''; '' errors
      else ''All actions were completed successfully.'')"

definition process_confirmation ::
  "(pyval \<Rightarrow> string) \<Rightarrow> Conversation \<Rightarrow> bool \<Rightarrow> (string \<times> 'w handler) list option \<Rightarrow> 'w \<Rightarrow>
   (py_error + pyval) \<times> Conversation \<times> 'w" where
  "process_confirmation str_of conversation cf action_handlers w =
     (case set_confirmation conversation cf of
        Inl e \<Rightarrow> (Inl e, conversation, w)
      | Inr c1 \<Rightarrow>
          if \<not> cf
          then (Inr (PDict [(''confirmed'', PBool False),
                            (''executed_actions'', PList []),
                            (''response'', PStr ''Actions cancelled as requested.''),
                            (''conversation_state'', PStr (ConversationState_value (state c1)))]),
                c1, w)
          else (case execute_proposed str_of action_handlers c1 w of
                  (Inl e, w1) \<Rightarrow> (Inl e, c1, w1)
                | (Inr (executed, errors), w1) \<Rightarrow>
                    (case set_executed_actions c1 (PList executed) of
                       Inl e \<Rightarrow> (Inl e, c1, w1)
                     | Inr c2 \<Rightarrow>
                         (Inr (PDict [(''confirmed'', PBool True),
                                      (''executed_actions'', PList executed),
                                      (''response'', PStr (confirmation_response errors)),
                                      (''conversation_state'', PStr (ConversationState_value (state c2)))]),
                          c2, w1))))"

section \<open>Example inputs\<close>

text \<open>
  A decoder for the worked examples below: on the four texts it knows it returns what
  \<^verbatim>\<open>json.loads\<close> returns, and it rejects every other text.
\<close>

definition decode_example :: "string \<Rightarrow> py_error + pyval" where
  \<open>decode_example s =
     (if s = ''{}'' then Inr (PDict [])
      else if s = ''null'' then Inr PNone
      else if s = ''{"proposed_actions": 5}'' then Inr (PDict [(''proposed_actions'', PInt 5)])
      else if s = ''{"proposed_actions": [{"type": "create_note", "content": "x"}]}''
        then Inr (PDict [(''proposed_actions'',
                    PList [PDict [(''type'', PStr ''create_note''), (''content'', PStr ''x'')]])])
      else Inl (JSONDecodeError ''Expecting value''))\<close>

text \<open>
  Handlers for the worked examples. The world is the number of notes stored so far:
  \<open>note_handler\<close> stores one and returns its identity, \<open>failing_handler\<close> raises.
  \<open>no_str\<close> stands in for \<^verbatim>\<open>str()\<close> where an example formats strings only.
\<close>

definition no_str :: "pyval \<Rightarrow> string" where
  "no_str v = []"

definition note_handler :: "nat handler" where
  "note_handler action n =
     (Inr (PDict [(''note_id'', PInt (int n)), (''created'', PBool True)]), Suc n)"

definition failing_handler :: "nat handler" where
  "failing_handler action n = (Inl (OtherException ''store unavailable''), n)"

definition example_handlers :: "(string \<times> nat handler) list" where
  "example_handlers =
     [(''create_note'', note_handler), (''create_relationship'', failing_handler)]"

definition example_actions :: "pyval list" where
  "example_actions =
     [PDict [(''type'', PStr ''create_note''), (''content'', PStr ''a'')],
      PDict [(''type'', PStr ''create_relationship'')],
      PDict [(''type'', PStr ''create_concept''), (''name'', PStr ''c'')],
      PDict [(''type'', PStr ''create_note''), (''content'', PStr ''b'')]]"

definition example_turn :: ConversationTurn where
  "example_turn =
     \<lparr> user_input = Some ''add two notes'',
       ai_response = Some ''Shall I proceed?'',
       proposed_actions = PList example_actions,
       confirmed = False,
       executed_actions = PList [],
       timestamp = PNone \<rparr>"

text \<open>
  Stand-ins for the two parts of the client: \<^verbatim>\<open>_build_prompt\<close> returns a text,
  \<open>chat_down\<close> is a completion call that raises, so that the client returns its error
  result whenever it is queried, and \<open>chat_plain\<close> one that answers without a fenced
  block.
\<close>

definition example_build_prompt :: "string \<Rightarrow> pyval list \<Rightarrow> py_error + string" where
  "example_build_prompt prompt context = Inr prompt"


definition chat_plain :: "string \<Rightarrow> pyval list \<Rightarrow> py_error + string" where
  "chat_plain full_prompt context = Inr ''Nothing to do.''"

definition example_conversation :: Conversation where
  "example_conversation =
     \<lparr> conversation_id = None,
       turns = [],
       state = AWAITING_CONFIRMATION,
       current_turn = Some example_turn,
       metadata = [] \<rparr>"

section \<open>Properties of the conversation operations\<close>

lemma fresh_turn_fields:
  "executed_actions (ConversationTurn_init ui ar PNone cf PNone) = PList []"
  "proposed_actions (ConversationTurn_init ui ar PNone cf PNone) = PList []"
  "timestamp (ConversationTurn_init ui ar pa cf ea) = PNone"
  "user_input (ConversationTurn_init ui ar pa cf ea) = ui"
  "confirmed (ConversationTurn_init ui ar pa cf ea) = cf"
  by (simp_all add: ConversationTurn_init_def py_or_def)

lemma reachable_open_turn:
  "reachable c \<Longrightarrow> current_turn c = Some t \<Longrightarrow> executed_actions t = PList [] \<and> timestamp t = PNone"
proof (induction arbitrary: t rule: reachable.induct)
  case (r_init cid)
  then show ?case by (simp add: Conversation_init_def)
next
  case (r_start c ui)
  then show ?case
    by (auto simp: start_new_turn_def Let_def fresh_turn_fields split: option.splits)
next
  case (r_propose c ar pa c')
  then show ?case
    by (auto simp: set_proposed_actions_def split: option.splits)
next
  case (r_confirm c cf c')
  then show ?case
    by (auto simp: set_confirmation_def Let_def split: option.splits if_splits)
next
  case (r_executed c ea c')
  then show ?case
    by (auto simp: set_executed_actions_def split: option.splits)
qed

lemma start_new_turn_fields:
  "state (start_new_turn c ui) = ANALYZING"
  "current_turn (start_new_turn c ui) = Some (ConversationTurn_init (Some ui) None PNone False PNone)"
  "turns (start_new_turn c ui) = (case current_turn c of None \<Rightarrow> turns c | Some t \<Rightarrow> turns c @ [t])"
  "conversation_id (start_new_turn c ui) = conversation_id c"
  "metadata (start_new_turn c ui) = metadata c"
  by (simp_all add: start_new_turn_def Let_def split: option.splits)

lemma start_turns_snoc:
  "foldl start_new_turn c (us @ [u]) = start_new_turn (foldl start_new_turn c us) u"
  by simp

lemma map_butlast_last:
  "us \<noteq> [] \<Longrightarrow> map f (butlast us) @ [f (last us)] = map f us"
  by (induction us) auto

lemma start_turns_general:
  "us \<noteq> [] \<Longrightarrow>
   turns (foldl start_new_turn c us) =
     turns c @ (case current_turn c of None \<Rightarrow> [] | Some t \<Rightarrow> [t])
       @ map (\<lambda>u. ConversationTurn_init (Some u) None PNone False PNone) (butlast us)
   \<and> current_turn (foldl start_new_turn c us) =
       Some (ConversationTurn_init (Some (last us)) None PNone False PNone)
   \<and> state (foldl start_new_turn c us) = ANALYZING"
proof (induction us rule: rev_induct)
  case Nil
  then show ?case by simp
next
  case (snoc u us)
  show ?case
  proof (cases "us = []")
    case True
    then show ?thesis
      by (simp add: start_new_turn_fields split: option.splits)
  next
    case False
    with snoc.IH
      map_butlast_last [of us "\<lambda>u. ConversationTurn_init (Some u) None PNone False PNone"]
    show ?thesis
      by (simp add: start_new_turn_fields butlast_append)
  qed
qed

section \<open>Claims about the conversation operations\<close>

text \<open>
  C6: \<open>start_new_turn\<close> has no failing branch (it returns a conversation for every
  argument). Whatever the conversation, it leaves the state at \<open>ANALYZING\<close>, makes a fresh
  turn the current one, and appends the turn that was open, complete or not, to the
  history. \<open>N\<close> consecutive calls (\<open>N\<close> at least 1) on a new conversation leave a history of
  length \<open>N - 1\<close>, which holds the fresh turns of the first \<open>N - 1\<close> inputs in order.
\<close>

theorem start_new_turn_history:
  "state (start_new_turn c ui) = ANALYZING
   \<and> current_turn (start_new_turn c ui) = Some (ConversationTurn_init (Some ui) None PNone False PNone)
   \<and> turns (start_new_turn c ui) = (case current_turn c of None \<Rightarrow> turns c | Some t \<Rightarrow> turns c @ [t])
   \<and> (us \<noteq> [] \<longrightarrow>
        int (length (turns (foldl start_new_turn (Conversation_init cid) us))) = int (length us) - 1
        \<and> turns (foldl start_new_turn (Conversation_init cid) us)
            = map (\<lambda>u. ConversationTurn_init (Some u) None PNone False PNone) (butlast us))"
proof -
  have "us \<noteq> [] \<Longrightarrow> turns (foldl start_new_turn (Conversation_init cid) us)
            = map (\<lambda>u. ConversationTurn_init (Some u) None PNone False PNone) (butlast us)"
    using start_turns_general [of us "Conversation_init cid"]
    by (simp add: Conversation_init_def)
  moreover have "us \<noteq> [] \<Longrightarrow> int (length (butlast us)) = int (length us) - 1"
    by (cases us rule: rev_cases) simp_all
  ultimately show ?thesis
    by (simp add: start_new_turn_fields)
qed

theorem start_new_turn_history_witness:
  "[''a'', ''b'', ''c''] \<noteq> ([] :: string list)
   \<and> int (length (turns (foldl start_new_turn (Conversation_init None) [''a'', ''b'', ''c'']))) = 2
   \<and> state (start_new_turn (Conversation_init None) ''a'') = ANALYZING"
  using start_new_turn_history [of "Conversation_init None" "''a''" "[''a'', ''b'', ''c'']" None]
  by simp


text \<open>
  C5: with a turn open, \<open>set_confirmation\<close> with \<open>True\<close> succeeds and changes only the
  turn's \<open>confirmed\<close> flag and the state tag (\<open>EXECUTING\<close>): the history is the same and the
  turn is still the current one. \<open>set_executed_actions\<close>, after it or on any conversation
  with an open turn, appends the turn with the given executed list, whatever that list
  holds, clears the current turn and sets the state to \<open>AWAITING_USER_INPUT\<close>.
\<close>

theorem confirmation_true_keeps_turn_open:
  assumes "current_turn c = Some t"
  shows "\<exists>c1. set_confirmation c True = Inr c1
           \<and> turns c1 = turns c
           \<and> current_turn c1 = Some (t\<lparr>confirmed := True\<rparr>)
           \<and> state c1 = EXECUTING
           \<and> conversation_id c1 = conversation_id c
           \<and> metadata c1 = metadata c
           \<and> (\<forall>ea. \<exists>c2. set_executed_actions c1 ea = Inr c2
                  \<and> turns c2 = turns c @ [t\<lparr>confirmed := True, executed_actions := ea\<rparr>]
                  \<and> current_turn c2 = None
                  \<and> state c2 = AWAITING_USER_INPUT)
           \<and> (\<forall>ea. \<exists>c2. set_executed_actions c ea = Inr c2
                  \<and> turns c2 = turns c @ [t\<lparr>executed_actions := ea\<rparr>]
                  \<and> current_turn c2 = None
                  \<and> state c2 = AWAITING_USER_INPUT)"
  using assms by (simp add: set_confirmation_def set_executed_actions_def Let_def)

theorem confirmation_true_keeps_turn_open_witness:
  "current_turn (start_new_turn (Conversation_init None) ''hi'')
     = Some (ConversationTurn_init (Some ''hi'') None PNone False PNone)
   \<and> (\<exists>c1. set_confirmation (start_new_turn (Conversation_init None) ''hi'') True = Inr c1
          \<and> turns c1 = []
          \<and> current_turn c1 = Some ((ConversationTurn_init (Some ''hi'') None PNone False PNone)\<lparr>confirmed := True\<rparr>)
          \<and> state c1 = EXECUTING
          \<and> (\<exists>c2. set_executed_actions c1 (PList [PDict [(''status'', PStr ''failed'')]]) = Inr c2
                \<and> length (turns c2) = 1
                \<and> current_turn c2 = None
                \<and> state c2 = AWAITING_USER_INPUT))"
proof -
  have ct: "current_turn (start_new_turn (Conversation_init None) ''hi'')
              = Some (ConversationTurn_init (Some ''hi'') None PNone False PNone)"
    by (simp add: start_new_turn_fields)
  have tn: "turns (start_new_turn (Conversation_init None) ''hi'') = []"
    by (simp add: start_new_turn_fields Conversation_init_def)
  from confirmation_true_keeps_turn_open [OF ct] obtain c1 where
    c1: "set_confirmation (start_new_turn (Conversation_init None) ''hi'') True = Inr c1"
      "turns c1 = turns (start_new_turn (Conversation_init None) ''hi'')"
      "current_turn c1 = Some ((ConversationTurn_init (Some ''hi'') None PNone False PNone)\<lparr>confirmed := True\<rparr>)"
      "state c1 = EXECUTING"
      "\<forall>ea. \<exists>c2. set_executed_actions c1 ea = Inr c2
          \<and> turns c2 = turns (start_new_turn (Conversation_init None) ''hi'')
                @ [(ConversationTurn_init (Some ''hi'') None PNone False PNone)\<lparr>confirmed := True, executed_actions := ea\<rparr>]
          \<and> current_turn c2 = None
          \<and> state c2 = AWAITING_USER_INPUT"
    by blast
  from c1(5) obtain c2 where
    c2: "set_executed_actions c1 (PList [PDict [(''status'', PStr ''failed'')]]) = Inr c2"
      "turns c2 = turns (start_new_turn (Conversation_init None) ''hi'')
         @ [(ConversationTurn_init (Some ''hi'') None PNone False PNone)\<lparr>confirmed := True,
              executed_actions := PList [PDict [(''status'', PStr ''failed'')]]\<rparr>]"
      "current_turn c2 = None" "state c2 = AWAITING_USER_INPUT"
    by blast
  from c2 tn have "length (turns c2) = 1" by simp
  with ct c1 c2 tn show ?thesis by auto
qed

text \<open>
  C9: the timestamp of a turn is \<^verbatim>\<open>None\<close> at creation, and the source's comment says it
  will be set when the turn is added to the conversation. None of the three paths that
  append a turn to the history assigns it: after \<open>start_new_turn\<close> replaces an open turn,
  after a rejection and after \<open>set_executed_actions\<close>, the appended turn's timestamp is
  still \<^verbatim>\<open>None\<close>.
\<close>

theorem timestamp_unset_after_append:
  "map timestamp (turns (start_new_turn (start_new_turn (Conversation_init None) ''a'') ''b'')) = [PNone]
   \<and> map_sum id (\<lambda>c. map timestamp (turns c))
        (set_confirmation (start_new_turn (Conversation_init None) ''a'') False) = Inr [PNone]
   \<and> map_sum id (\<lambda>c. map timestamp (turns c))
        (set_executed_actions (start_new_turn (Conversation_init None) ''a'') (PList [])) = Inr [PNone]"
  by (simp add: start_new_turn_def set_confirmation_def set_executed_actions_def Let_def
        Conversation_init_def ConversationTurn_init_def)

text \<open>
  C4: for a conversation built by the operations, with a turn open, \<open>set_confirmation\<close>
  with \<open>False\<close> appends that turn to the history, clears the current turn and sets the
  state to \<open>AWAITING_USER_INPUT\<close>; the closed turn's executed actions are empty.
  \<open>process_confirmation\<close> with \<open>False\<close> makes that call and returns an empty executed list
  and the fixed message, and the world the handlers act on is as before, whatever the
  registry.
\<close>

theorem rejection_closes_turn:
  assumes "reachable c" and "current_turn c = Some t"
  shows "\<exists>c1. set_confirmation c False = Inr c1
           \<and> turns c1 = turns c @ [t\<lparr>confirmed := False\<rparr>]
           \<and> current_turn c1 = None
           \<and> state c1 = AWAITING_USER_INPUT
           \<and> executed_actions (last (turns c1)) = PList []
           \<and> process_confirmation str_of c False action_handlers w =
               (Inr (PDict [(''confirmed'', PBool False),
                            (''executed_actions'', PList []),
                            (''response'', PStr ''Actions cancelled as requested.''),
                            (''conversation_state'', PStr ''awaiting_user_input'')]),
                c1, w)"
proof -
  from reachable_open_turn [OF assms] have "executed_actions t = PList []" by simp
  with assms(2) show ?thesis
    by (simp add: set_confirmation_def process_confirmation_def Let_def)
qed

theorem rejection_closes_turn_witness:
  "reachable (start_new_turn (Conversation_init None) ''hi'')
   \<and> current_turn (start_new_turn (Conversation_init None) ''hi'')
       = Some (ConversationTurn_init (Some ''hi'') None PNone False PNone)
   \<and> (\<exists>c1. set_confirmation (start_new_turn (Conversation_init None) ''hi'') False = Inr c1
          \<and> length (turns c1) = 1
          \<and> current_turn c1 = None
          \<and> state c1 = AWAITING_USER_INPUT
          \<and> executed_actions (last (turns c1)) = PList []
          \<and> process_confirmation (\<lambda>v. []) (start_new_turn (Conversation_init None) ''hi'') False
               (Some [(''create_note'', \<lambda>a n. (Inr PNone, Suc n))]) (0::nat) =
               (Inr (PDict [(''confirmed'', PBool False),
                            (''executed_actions'', PList []),
                            (''response'', PStr ''Actions cancelled as requested.''),
                            (''conversation_state'', PStr ''awaiting_user_input'')]),
                c1, 0))"
proof -
  have r: "reachable (start_new_turn (Conversation_init None) ''hi'')"
    by (rule r_start [OF r_init])
  have ct: "current_turn (start_new_turn (Conversation_init None) ''hi'')
              = Some (ConversationTurn_init (Some ''hi'') None PNone False PNone)"
    by (simp add: start_new_turn_fields)
  have tn: "turns (start_new_turn (Conversation_init None) ''hi'') = []"
    by (simp add: start_new_turn_fields Conversation_init_def)
  from rejection_closes_turn [OF r ct, of "\<lambda>v. []" "Some [(''create_note'', \<lambda>a n. (Inr PNone, Suc n))]" "0::nat"]
  obtain c1 where
    c1: "set_confirmation (start_new_turn (Conversation_init None) ''hi'') False = Inr c1"
      "turns c1 = turns (start_new_turn (Conversation_init None) ''hi'')
         @ [(ConversationTurn_init (Some ''hi'') None PNone False PNone)\<lparr>confirmed := False\<rparr>]"
      "current_turn c1 = None" "state c1 = AWAITING_USER_INPUT"
      "executed_actions (last (turns c1)) = PList []"
      "process_confirmation (\<lambda>v. []) (start_new_turn (Conversation_init None) ''hi'') False
               (Some [(''create_note'', \<lambda>a n. (Inr PNone, Suc n))]) (0::nat) =
               (Inr (PDict [(''confirmed'', PBool False),
                            (''executed_actions'', PList []),
                            (''response'', PStr ''Actions cancelled as requested.''),
                            (''conversation_state'', PStr ''awaiting_user_input'')]),
                c1, 0)"
    by blast
  from c1(2) tn have "length (turns c1) = 1" by simp
  with r ct c1 show ?thesis by blast
qed

section \<open>Claims about the extractor\<close>

lemma find_from_at:
  "\<forall>j < length pre. \<not> prefix sub (drop j (pre @ rest)) \<Longrightarrow> prefix sub rest \<Longrightarrow>
   find_from sub (pre @ rest) i = Some (i + length pre)"
proof (induction pre arbitrary: i)
  case Nil
  then show ?case by (cases rest) auto
next
  case (Cons p ps)
  from Cons.prems(1) have "\<not> prefix sub (drop 0 ((p # ps) @ rest))" by blast
  then have np: "\<not> prefix sub (p # ps @ rest)" by simp
  have "\<forall>j < length ps. \<not> prefix sub (drop j (ps @ rest))"
  proof (intro allI impI)
    fix j assume "j < length ps"
    then have "Suc j < length (p # ps)" by simp
    with Cons.prems(1) have "\<not> prefix sub (drop (Suc j) ((p # ps) @ rest))" by blast
    then show "\<not> prefix sub (drop j (ps @ rest))" by simp
  qed
  from Cons.IH [OF this Cons.prems(2), of "Suc i"] np show ?case by simp
qed

lemma find_from_None_drop:
  "find_from sub s i = None \<Longrightarrow> j \<le> length s \<Longrightarrow> \<not> prefix sub (drop j s)"
proof (induction s arbitrary: i j)
  case Nil
  then show ?case by (auto split: if_splits)
next
  case (Cons c cs)
  from Cons.prems(1) have np: "\<not> prefix sub (c # cs)" and rest: "find_from sub cs (Suc i) = None"
    by (auto split: if_splits)
  show ?case
  proof (cases j)
    case 0
    with np show ?thesis by simp
  next
    case (Suc j')
    with Cons.prems(2) have "j' \<le> length cs" by simp
    from Cons.IH [OF rest this] Suc show ?thesis by simp
  qed
qed

lemma py_find_None_drop:
  "py_find s sub 0 = None \<Longrightarrow> j \<le> length s \<Longrightarrow> \<not> prefix sub (drop j s)"
  by (auto simp: py_find_def dest: find_from_None_drop)

lemma py_find_at:
  assumes "\<forall>j < length pre. start \<le> j \<longrightarrow> \<not> prefix sub (drop j (pre @ rest))"
    and "prefix sub rest" and "start \<le> length pre"
  shows "py_find (pre @ rest) sub start = Some (length pre)"
proof -
  have "\<forall>j < length (drop start pre). \<not> prefix sub (drop j (drop start pre @ rest))"
  proof (intro allI impI)
    fix j assume j: "j < length (drop start pre)"
    then have "start + j < length pre" by simp
    with assms(1) have "\<not> prefix sub (drop (start + j) (pre @ rest))" by simp
    moreover have "drop (start + j) (pre @ rest) = drop j (drop start pre @ rest)"
      using assms(3) j by (simp add: add.commute)
    ultimately show "\<not> prefix sub (drop j (drop start pre @ rest))" by simp
  qed
  from find_from_at [OF this assms(2), of start] assms(3)
  show ?thesis by (simp add: py_find_def)
qed


lemma prefix_split:
  assumes "prefix xs (p @ ys)" and "length p \<le> length xs"
  shows "take (length p) xs = p \<and> prefix (drop (length p) xs) ys"
proof -
  from assms(1) obtain zs where eq: "p @ ys = xs @ zs" by (auto simp: prefix_def)
  have "take (length p) (p @ ys) = take (length p) (xs @ zs)" using eq by simp
  then have t: "take (length p) xs = p" using assms(2) by simp
  have "drop (length p) (p @ ys) = drop (length p) (xs @ zs)" using eq by simp
  then have "ys = drop (length p) xs @ zs" using assms(2) by simp
  then have "prefix (drop (length p) xs) ys" by (simp add: prefix_def)
  with t show ?thesis by simp
qed

lemma prefix_short:
  assumes "prefix xs (p @ ys)" and "length xs \<le> length p"
  shows "prefix xs p"
proof -
  from assms(1) obtain zs where eq: "p @ ys = xs @ zs" by (auto simp: prefix_def)
  have "take (length xs) (p @ ys) = take (length xs) (xs @ zs)" using eq by simp
  then have "take (length xs) p = xs" using assms(2) by simp
  then show ?thesis by (metis take_is_prefix)
qed

lemma small_cases:
  "n < 7 \<Longrightarrow> n \<noteq> 0 \<Longrightarrow> n = 1 \<or> n = 2 \<or> n = 3 \<or> n = 4 \<or> n = 5 \<or> n = (6::nat)"
  by arith

lemma no_overlap_json:
  assumes "p \<noteq> []" and "length p < 7"
  shows "\<not> prefix fence_json (p @ fence_json @ rest)"
proof
  assume pr: "prefix fence_json (p @ fence_json @ rest)"
  have len: "length p \<le> length fence_json" using assms(2) by (simp add: fence_json_def)
  from prefix_split [OF pr len]
  have d: "prefix (drop (length p) fence_json) (fence_json @ rest)" by simp
  from assms have "length p \<noteq> 0" by simp
  from small_cases [OF assms(2) this] d show False
    by (auto simp: fence_json_def)
qed

lemma open_fence_first:
  assumes "py_find pre fence_json 0 = None" and "j < length pre"
  shows "\<not> prefix fence_json (drop j (pre @ fence_json @ rest))"
proof
  assume pr: "prefix fence_json (drop j (pre @ fence_json @ rest))"
  define p where "p = drop j pre"
  have pne: "p \<noteq> []" using assms(2) by (simp add: p_def)
  have eq: "drop j (pre @ fence_json @ rest) = p @ fence_json @ rest"
    using assms(2) by (simp add: p_def)
  show False
  proof (cases "length p < 7")
    case True
    from no_overlap_json [OF pne True] pr eq show False by simp
  next
    case False
    then have len: "length fence_json \<le> length p" by (simp add: fence_json_def)
    from pr eq have "prefix fence_json (p @ fence_json @ rest)" by simp
    from prefix_short [OF this len] have "prefix fence_json p" .
    moreover have "\<not> prefix fence_json (drop j pre)"
      using py_find_None_drop [OF assms(1), of j] assms(2) by simp
    ultimately show False by (simp add: p_def)
  qed
qed

lemma close_fence_first:
  assumes "py_find (body @ ''``'') fence 0 = None" and "j < length body"
  shows "\<not> prefix fence (drop j (body @ fence @ post))"
proof
  assume pr: "prefix fence (drop j (body @ fence @ post))"
  define q where "q = drop j body"
  have qne: "q \<noteq> []" using assms(2) by (simp add: q_def)
  have eq: "drop j (body @ fence @ post) = q @ fence @ post"
    using assms(2) by (simp add: q_def)
  have eq2: "drop j (body @ ''``'') = q @ ''``''"
    using assms(2) by (simp add: q_def)
  have "prefix fence (q @ ''``'')"
  proof (cases "length q < 3")
    case True
    then have len: "length q \<le> length fence" by (simp add: fence_def)
    from pr eq have "prefix fence (q @ fence @ post)" by simp
    from prefix_split [OF this len] have t: "take (length q) fence = q" by simp
    from qne have "length q \<noteq> 0" by simp
    with True have "length q = 1 \<or> length q = 2" by arith
    with t show ?thesis by (auto simp: fence_def)
  next
    case False
    then have len: "length fence \<le> length q" by (simp add: fence_def)
    from pr eq have "prefix fence (q @ fence @ post)" by simp
    from prefix_short [OF this len] have "prefix fence q" .
    then show ?thesis by simp
  qed
  moreover have "\<not> prefix fence (drop j (body @ ''``''))"
    using py_find_None_drop [OF assms(1), of j] assms(2) by simp
  ultimately show False using eq2 by simp
qed

lemma fenced_positions:
  assumes pre: "py_find pre fence_json 0 = None"
    and body: "py_find (body @ ''``'') fence 0 = None"
  shows "py_find (pre @ fence_json @ body @ fence @ post) fence_json 0 = Some (length pre)"
    and "py_find (pre @ fence_json @ body @ fence @ post) fence (length pre + 6)
           = Some (length pre + 7 + length body)"
proof -
  have "\<forall>j < length pre. 0 \<le> j \<longrightarrow> \<not> prefix fence_json (drop j (pre @ fence_json @ body @ fence @ post))"
    using open_fence_first [OF pre] by blast
  from py_find_at [OF this]
  show "py_find (pre @ fence_json @ body @ fence @ post) fence_json 0 = Some (length pre)"
    by simp
next
  let ?P = "pre @ fence_json @ body"
  have lj: "length fence_json = 7" by (simp add: fence_json_def)
  have "\<forall>j < length ?P. length pre + 6 \<le> j \<longrightarrow> \<not> prefix fence (drop j (?P @ fence @ post))"
  proof (intro allI impI)
    fix j assume j: "j < length ?P" and lo: "length pre + 6 \<le> j"
    show "\<not> prefix fence (drop j (?P @ fence @ post))"
    proof (cases "j = length pre + 6")
      case True
      have "drop j (?P @ fence @ post) = drop 6 fence_json @ body @ fence @ post"
        using True lj by simp
      then show ?thesis by (simp add: fence_json_def fence_def)
    next
      case False
      with lo have ge: "length pre + 7 \<le> j" by simp
      define k where "k = j - (length pre + 7)"
      have kl: "k < length body" using j ge lj by (simp add: k_def)
      have "drop j (?P @ fence @ post) = drop k (body @ fence @ post)"
        using ge lj by (simp add: k_def)
      with close_fence_first [OF body kl] show ?thesis by simp
    qed
  qed
  from py_find_at [OF this] lj
  have "py_find (?P @ fence @ post) fence (length pre + 6) = Some (length ?P)"
    by simp
  then show "py_find (pre @ fence_json @ body @ fence @ post) fence (length pre + 6)
           = Some (length pre + 7 + length body)"
    using lj by (simp add: add.assoc)
qed


text \<open>
  C7: a response \<open>pre @ ```json @ body @ ``` @ post\<close>, where the opening fence does not
  occur in \<open>pre\<close> and the closing fence is the first one after the opening fence (no
  fence begins inside \<open>body\<close>), and where \<open>body\<close>, trimmed, decodes to an object
  whose key \<^verbatim>\<open>proposed_actions\<close> holds a list: the extractor returns the prose around the
  block, \<open>pre @ post\<close>, trimmed, and that list.
\<close>

theorem extract_round_trip:
  assumes "py_find pre fence_json 0 = None"
    and "py_find (body @ ''``'') fence 0 = None"
    and "loads (strip body) = Inr (PDict kvs)"
    and "map_of kvs ''proposed_actions'' = Some (PList actions)"
  shows "extract_actions_from_response loads (pre @ fence_json @ body @ fence @ post)
           = (strip (pre @ post), PList actions)"
proof -
  let ?r = "pre @ fence_json @ body @ fence @ post"
  have lj: "length fence_json = 7" by (simp add: fence_json_def)
  have lf: "length fence = 3" by (simp add: fence_def)
  note pos = fenced_positions [OF assms(1,2), of post]
  have sl: "py_slice ?r (length pre + 7) (length pre + 7 + length body) = body"
    using lj by (simp add: py_slice_def)
  have tk: "take (length pre) ?r = pre" by simp
  have dr: "drop (length pre + 7 + length body + 3) ?r = post"
    using lj lf by simp
  show ?thesis
    unfolding extract_actions_from_response_def extract_try_def
    using pos sl tk dr assms(3,4) by simp
qed

theorem extract_round_trip_witness:
  \<open>py_find ''I will add a note. '' fence_json 0 = None
   \<and> py_find (''{"proposed_actions": [{"type": "create_note", "content": "x"}]} '' @ ''``'') fence 0 = None
   \<and> extract_actions_from_response decode_example
        (''I will add a note. '' @ fence_json
           @ ''{"proposed_actions": [{"type": "create_note", "content": "x"}]} ''
           @ fence @ '' Shall I proceed? '')
       = (''I will add a note.  Shall I proceed?'',
          PList [PDict [(''type'', PStr ''create_note''), (''content'', PStr ''x'')]])\<close>
proof -
  have a: "py_find ''I will add a note. '' fence_json 0 = None"
    by (simp add: py_find_def fence_json_def)
  have b: \<open>py_find (''{"proposed_actions": [{"type": "create_note", "content": "x"}]} '' @ ''``'') fence 0 = None\<close>
    by (simp add: py_find_def fence_def)
  have c: \<open>decode_example (strip ''{"proposed_actions": [{"type": "create_note", "content": "x"}]} '')
      = Inr (PDict [(''proposed_actions'',
                    PList [PDict [(''type'', PStr ''create_note''), (''content'', PStr ''x'')]])])\<close>
    by (simp add: decode_example_def strip_def is_space_def)
  have d: "map_of [(''proposed_actions'',
                    PList [PDict [(''type'', PStr ''create_note''), (''content'', PStr ''x'')]])] ''proposed_actions''
           = Some (PList [PDict [(''type'', PStr ''create_note''), (''content'', PStr ''x'')]])"
    by simp
  have e: "strip (''I will add a note. '' @ '' Shall I proceed? '') = ''I will add a note.  Shall I proceed?''"
    by (simp add: strip_def is_space_def)
  from extract_round_trip [where loads = decode_example and post = "'' Shall I proceed? ''", OF a b c d] a b e
  show ?thesis by simp
qed

text \<open>
  C3, amended: the extractor returns a pair for every response and every decoder (it has
  no failing branch). It returns the response unchanged with an empty list when there
  is no opening fence, when no closing fence follows it, when the decoder rejects the
  fenced text, and when the key test raises on the decoded value. When the text decodes
  to an object without the key \<^verbatim>\<open>proposed_actions\<close>, the action list is empty but the
  text returned is the response with the block removed, trimmed; when the key is there,
  its value is returned as it is, whatever its type.
\<close>

theorem extract_fallback:
  "(py_find response fence_json 0 = None \<longrightarrow>
      extract_actions_from_response loads response = (response, PList []))
   \<and> (py_find response fence_json 0 = Some js \<and> py_find response fence (js + 6) = None \<longrightarrow>
      extract_actions_from_response loads response = (response, PList []))
   \<and> (py_find response fence_json 0 = Some js \<and> py_find response fence (js + 6) = Some je
        \<and> loads (strip (py_slice response (js + 7) je)) = Inl e \<longrightarrow>
      extract_actions_from_response loads response = (response, PList []))
   \<and> (py_find response fence_json 0 = Some js \<and> py_find response fence (js + 6) = Some je
        \<and> loads (strip (py_slice response (js + 7) je)) = Inr d
        \<and> py_contains d ''proposed_actions'' = Inl e \<longrightarrow>
      extract_actions_from_response loads response = (response, PList []))
   \<and> (py_find response fence_json 0 = Some js \<and> py_find response fence (js + 6) = Some je
        \<and> loads (strip (py_slice response (js + 7) je)) = Inr (PDict kvs)
        \<and> map_of kvs ''proposed_actions'' = None \<longrightarrow>
      extract_actions_from_response loads response
        = (strip (take js response @ drop (je + 3) response), PList []))
   \<and> (py_find response fence_json 0 = Some js \<and> py_find response fence (js + 6) = Some je
        \<and> loads (strip (py_slice response (js + 7) je)) = Inr (PDict kvs)
        \<and> map_of kvs ''proposed_actions'' = Some v \<longrightarrow>
      extract_actions_from_response loads response
        = (strip (take js response @ drop (je + 3) response), v))"
  by (simp add: extract_actions_from_response_def extract_try_def)

text \<open>
  C3 as stated fails: an object without the key gives empty actions with the block
  removed from the text, and a value of the wrong type under the key is returned.
\<close>

theorem extract_fallback_counterexample:
  \<open>extract_actions_from_response decode_example ''Done. ```json {} ```'' = (''Done.'', PList [])
   \<and> extract_actions_from_response decode_example ''Done. ```json {} ```''
        \<noteq> (''Done. ```json {} ```'', PList [])
   \<and> extract_actions_from_response decode_example ''```json {"proposed_actions": 5} ```''
        = ([], PInt 5)
   \<and> extract_actions_from_response decode_example ''```json {"proposed_actions": 5} ```''
        \<noteq> (''```json {"proposed_actions": 5} ```'', PList [])\<close>
  by (simp add: extract_actions_from_response_def extract_try_def py_find_def py_slice_def
        fence_json_def fence_def strip_def is_space_def decode_example_def)

lemmas extract_eval =
  py_find_def py_slice_def fence_json_def fence_def strip_def is_space_def decode_example_def

theorem extract_fallback_witness:
  \<open>(py_find ''No actions here.'' fence_json 0 = None
      \<and> extract_actions_from_response decode_example ''No actions here.''
            = (''No actions here.'', PList []))
   \<and> (py_find ''```json {}'' fence_json 0 = Some 0 \<and> py_find ''```json {}'' fence (0 + 6) = None
      \<and> extract_actions_from_response decode_example ''```json {}'' = (''```json {}'', PList []))
   \<and> (py_find ''```json nope ```'' fence (0 + 6) = Some 13
      \<and> decode_example (strip (py_slice ''```json nope ```'' (0 + 7) 13))
            = Inl (JSONDecodeError ''Expecting value'')
      \<and> extract_actions_from_response decode_example ''```json nope ```''
            = (''```json nope ```'', PList []))
   \<and> (py_find ''```json null ```'' fence (0 + 6) = Some 13
      \<and> decode_example (strip (py_slice ''```json null ```'' (0 + 7) 13)) = Inr PNone
      \<and> extract_actions_from_response decode_example ''```json null ```''
            = (''```json null ```'', PList []))
   \<and> (py_find ''Done. ```json {} ```'' fence_json 0 = Some 6
      \<and> py_find ''Done. ```json {} ```'' fence (6 + 6) = Some 17
      \<and> decode_example (strip (py_slice ''Done. ```json {} ```'' (6 + 7) 17)) = Inr (PDict [])
      \<and> extract_actions_from_response decode_example ''Done. ```json {} ```'' = (''Done.'', PList []))
   \<and> (py_find ''```json {"proposed_actions": 5} ```'' fence (0 + 6) = Some 32
      \<and> decode_example (strip (py_slice ''```json {"proposed_actions": 5} ```'' (0 + 7) 32))
            = Inr (PDict [(''proposed_actions'', PInt 5)])
      \<and> extract_actions_from_response decode_example ''```json {"proposed_actions": 5} ```''
            = ([], PInt 5))\<close>
proof -
  have h1: "py_find ''No actions here.'' fence_json 0 = None"
    by (simp add: extract_eval)
  have h2: "py_find ''```json {}'' fence_json 0 = Some 0" "py_find ''```json {}'' fence (0 + 6) = None"
    by (simp_all add: extract_eval)
  have h3: "py_find ''```json nope ```'' fence_json 0 = Some 0"
    "py_find ''```json nope ```'' fence (0 + 6) = Some 13"
    "decode_example (strip (py_slice ''```json nope ```'' (0 + 7) 13))
       = Inl (JSONDecodeError ''Expecting value'')"
    by (simp_all add: extract_eval)
  have h4: "py_find ''```json null ```'' fence_json 0 = Some 0"
    "py_find ''```json null ```'' fence (0 + 6) = Some 13"
    "decode_example (strip (py_slice ''```json null ```'' (0 + 7) 13)) = Inr PNone"
    "py_contains PNone ''proposed_actions''
       = Inl (TypeError (''argument of type '' @ [CHR 0x27] @ ''NoneType'' @ [CHR 0x27] @ '' is not iterable''))"
    by (simp_all add: extract_eval)
  have h5: "py_find ''Done. ```json {} ```'' fence_json 0 = Some 6"
    "py_find ''Done. ```json {} ```'' fence (6 + 6) = Some 17"
    "decode_example (strip (py_slice ''Done. ```json {} ```'' (6 + 7) 17)) = Inr (PDict [])"
    "strip (take 6 ''Done. ```json {} ```'' @ drop (17 + 3) ''Done. ```json {} ```'') = ''Done.''"
    by (simp_all add: extract_eval)
  have h6: \<open>py_find ''```json {"proposed_actions": 5} ```'' fence_json 0 = Some 0\<close>
    \<open>py_find ''```json {"proposed_actions": 5} ```'' fence (0 + 6) = Some 32\<close>
    \<open>decode_example (strip (py_slice ''```json {"proposed_actions": 5} ```'' (0 + 7) 32))
       = Inr (PDict [(''proposed_actions'', PInt 5)])\<close>
    \<open>strip (take 0 ''```json {"proposed_actions": 5} ```''
        @ drop (32 + 3) ''```json {"proposed_actions": 5} ```'') = []\<close>
    by (simp_all add: extract_eval)
  note f = extract_fallback [where loads = decode_example]
  have r1: "extract_actions_from_response decode_example ''No actions here.''
              = (''No actions here.'', PList [])"
    using f [where response = "''No actions here.''"] h1 by blast
  have r2: "extract_actions_from_response decode_example ''```json {}'' = (''```json {}'', PList [])"
    using f [where response = "''```json {}''" and js = 0] h2 by blast
  have r3: "extract_actions_from_response decode_example ''```json nope ```''
              = (''```json nope ```'', PList [])"
    using f [where response = "''```json nope ```''" and js = 0 and je = 13
                and e = "JSONDecodeError ''Expecting value''"] h3 by blast
  have r4: "extract_actions_from_response decode_example ''```json null ```''
              = (''```json null ```'', PList [])"
    using f [where response = "''```json null ```''" and js = 0 and je = 13 and d = PNone
                and e = "TypeError (''argument of type '' @ [CHR 0x27] @ ''NoneType'' @ [CHR 0x27] @ '' is not iterable'')"]
      h4 by blast
  have r5: "extract_actions_from_response decode_example ''Done. ```json {} ```'' = (''Done.'', PList [])"
    using f [where response = "''Done. ```json {} ```''" and js = 6 and je = 17 and kvs = "[]"] h5
    by simp
  have r6: \<open>extract_actions_from_response decode_example ''```json {"proposed_actions": 5} ```''
              = ([], PInt 5)\<close>
    using f [where response = \<open>''```json {"proposed_actions": 5} ```''\<close> and js = 0 and je = 32
                and kvs = "[(''proposed_actions'', PInt 5)]" and v = "PInt 5"] h6
    by simp
  from h1 h2 h3 h4 h5 h6 r1 r2 r3 r4 r5 r6 show ?thesis by blast
qed

section \<open>Claims about confirmation and dispatch\<close>

lemma execute_action_errors:
  "execute_action str_of hs a errs w =
     (case execute_action str_of hs a [] w of
        (Inl e, w1) \<Rightarrow> (Inl e, w1)
      | (Inr (ea, m), w1) \<Rightarrow> (Inr (ea, errs @ m), w1))"
  by (auto simp: execute_action_def try_action_def except_action_def
        split: sum.splits option.splits prod.splits)

lemma execute_action_dict:
  "\<exists>ea m w1. execute_action str_of hs (PDict kvs) [] w = (Inr (ea, m), w1)"
  by (auto simp: execute_action_def try_action_def except_action_def
        split: sum.splits option.splits prod.splits)

lemma executed_entry_shape:
  assumes "execute_action str_of hs (PDict kvs) errs w = (Inr (ea, m), w1)"
  shows "\<exists>kvs'. ea = PDict kvs'
           \<and> (map_of kvs' ''status'' = Some (PStr ''executed'')
                \<or> map_of kvs' ''status'' = Some (PStr ''failed''))
           \<and> (\<forall>k. k \<noteq> ''status'' \<and> k \<noteq> ''result'' \<and> k \<noteq> ''error'' \<longrightarrow> map_of kvs' k = map_of kvs k)"
  using assms
  by (auto simp: execute_action_def try_action_def except_action_def update_conv'
        split: sum.splits option.splits prod.splits)

lemma run_actions_acc:
  "run_actions str_of hs xs ex errs w =
     (case run_actions str_of hs xs [] [] w of
        (Inl e, w1) \<Rightarrow> (Inl e, w1)
      | (Inr (es, er), w1) \<Rightarrow> (Inr (ex @ es, errs @ er), w1))"
proof (induction xs arbitrary: ex errs w)
  case Nil
  show ?case by simp
next
  case (Cons a xs)
  obtain r w1 where r: "execute_action str_of hs a [] w = (r, w1)" by (cases "execute_action str_of hs a [] w")
  show ?case
  proof (cases r)
    case (Inl e)
    with r show ?thesis
      by (simp add: execute_action_errors [of str_of hs a errs w])
  next
    case (Inr p)
    obtain ea m where p: "p = (ea, m)" by (cases p)
    have l: "run_actions str_of hs (a # xs) ex errs w
               = run_actions str_of hs xs (ex @ [ea]) (errs @ m) w1"
      using r Inr p by (simp add: execute_action_errors [of str_of hs a errs w])
    have rr: "run_actions str_of hs (a # xs) [] [] w = run_actions str_of hs xs [ea] m w1"
      using r Inr p by simp
    show ?thesis
      unfolding l rr
      by (subst Cons.IH [of "ex @ [ea]" "errs @ m" w1], subst Cons.IH [of "[ea]" m w1])
         (simp split: prod.splits sum.splits)
  qed
qed

lemma run_actions_append:
  "run_actions str_of hs (xs @ ys) ex errs w =
     (case run_actions str_of hs xs ex errs w of
        (Inl e, w1) \<Rightarrow> (Inl e, w1)
      | (Inr (ex1, er1), w1) \<Rightarrow> run_actions str_of hs ys ex1 er1 w1)"
  by (induction xs arbitrary: ex errs w) (auto split: prod.splits sum.splits)

lemma run_actions_dicts_ok:
  assumes "\<forall>a \<in> set xs. \<exists>kvs. a = PDict kvs"
  shows "\<exists>es er w1. run_actions str_of hs xs [] [] w = (Inr (es, er), w1) \<and> length es = length xs"
  using assms
proof (induction xs arbitrary: w)
  case Nil
  show ?case by simp
next
  case (Cons a xs)
  from Cons.prems obtain kvs where a: "a = PDict kvs" by auto
  obtain ea m w1 where ex1: "execute_action str_of hs a [] w = (Inr (ea, m), w1)"
    using execute_action_dict [of str_of hs kvs w] a by auto
  have "\<forall>a \<in> set xs. \<exists>kvs. a = PDict kvs" using Cons.prems by simp
  from Cons.IH [OF this, of w1] obtain es er w2 where
    ih: "run_actions str_of hs xs [] [] w1 = (Inr (es, er), w2)" "length es = length xs" by blast
  have "run_actions str_of hs (a # xs) [] [] w = run_actions str_of hs xs [ea] m w1"
    using ex1 by simp
  also have "\<dots> = (Inr ([ea] @ es, m @ er), w2)"
    by (subst run_actions_acc) (simp add: ih)
  finally show ?case using ih(2) by simp
qed

lemma run_actions_index:
  assumes dicts: "\<forall>a \<in> set xs. \<exists>kvs. a = PDict kvs"
    and run: "run_actions str_of hs xs [] [] w = (Inr (es, er), w1)"
    and i: "i < length xs"
  shows "\<exists>m. execute_action str_of hs (xs ! i) [] (snd (run_actions str_of hs (take i xs) [] [] w))
            = (Inr (es ! i, m), snd (run_actions str_of hs (take (Suc i) xs) [] [] w))"
proof -
  have d1: "\<forall>a \<in> set (take i xs). \<exists>kvs. a = PDict kvs"
    using dicts by (meson in_set_takeD)
  from run_actions_dicts_ok [OF d1, of str_of hs w] obtain es1 er1 wi where
    p: "run_actions str_of hs (take i xs) [] [] w = (Inr (es1, er1), wi)" "length es1 = length (take i xs)"
    by blast
  from dicts i obtain kvs where a: "xs ! i = PDict kvs" by (meson nth_mem)
  obtain ea m w2 where e: "execute_action str_of hs (xs ! i) [] wi = (Inr (ea, m), w2)"
    using execute_action_dict [of str_of hs kvs wi] a by auto
  have tk: "take (Suc i) xs = take i xs @ [xs ! i]"
    using i by (simp add: take_Suc_conv_app_nth)
  have p1: "run_actions str_of hs (take (Suc i) xs) [] [] w = (Inr (es1 @ [ea], er1 @ m), w2)"
    unfolding tk run_actions_append
    using p(1) e by (simp add: execute_action_errors [of str_of hs "xs ! i" er1 wi])
  have "xs = take (Suc i) xs @ drop (Suc i) xs" by simp
  then have "run_actions str_of hs xs [] [] w
      = run_actions str_of hs (drop (Suc i) xs) (es1 @ [ea]) (er1 @ m) w2"
    using run_actions_append [of str_of hs "take (Suc i) xs" "drop (Suc i) xs" "[]" "[]" w] p1
    by simp
  also have "\<dots> = (case run_actions str_of hs (drop (Suc i) xs) [] [] w2 of
        (Inl e, w3) \<Rightarrow> (Inl e, w3)
      | (Inr (es2, er2), w3) \<Rightarrow> (Inr ((es1 @ [ea]) @ es2, (er1 @ m) @ er2), w3))"
    by (rule run_actions_acc)
  finally have "\<exists>es2. es = (es1 @ [ea]) @ es2"
    using run by (auto split: prod.splits sum.splits)
  then obtain es2 where "es = (es1 @ [ea]) @ es2" by blast
  moreover have "length es1 = i" using p(2) i by simp
  ultimately have "es ! i = ea" by (simp add: nth_append)
  with p(1) p1 e show ?thesis by simp
qed

text \<open>
  C1: for a confirmed turn whose proposed actions are a list of dictionaries,
  \<open>process_confirmation\<close> returns (it does not raise) with exactly one executed action
  per proposed action, in the order of the proposals: entry \<open>i\<close> is what the loop body
  makes of action \<open>i\<close> in the world that the dispatches of the first \<open>i\<close> actions left,
  whether those succeeded, raised or found no handler. Each entry carries the status
  \<open>executed\<close> or \<open>failed\<close> and keeps the other fields of its action, and the turn is
  closed with that list.
\<close>

theorem confirmed_batch_dispatch:
  assumes "current_turn c = Some t"
    and "proposed_actions t = PList actions"
    and "\<forall>a \<in> set actions. \<exists>kvs. a = PDict kvs"
  shows "\<exists>executed errors c1.
      process_confirmation str_of c True hs w =
        (Inr (PDict [(''confirmed'', PBool True),
                     (''executed_actions'', PList executed),
                     (''response'', PStr (confirmation_response errors)),
                     (''conversation_state'', PStr ''awaiting_user_input'')]),
         c1, snd (run_actions str_of hs actions [] [] w))
      \<and> turns c1 = turns c @ [t\<lparr>confirmed := True, executed_actions := PList executed\<rparr>]
      \<and> current_turn c1 = None
      \<and> length executed = length actions
      \<and> (\<forall>i < length actions. \<exists>m.
            execute_action str_of hs (actions ! i) []
                (snd (run_actions str_of hs (take i actions) [] [] w))
              = (Inr (executed ! i, m), snd (run_actions str_of hs (take (Suc i) actions) [] [] w)))
      \<and> (\<forall>i < length actions. \<exists>kvs kvs'.
            actions ! i = PDict kvs \<and> executed ! i = PDict kvs'
            \<and> (map_of kvs' ''status'' = Some (PStr ''executed'')
                 \<or> map_of kvs' ''status'' = Some (PStr ''failed''))
            \<and> (\<forall>k. k \<noteq> ''status'' \<and> k \<noteq> ''result'' \<and> k \<noteq> ''error''
                   \<longrightarrow> map_of kvs' k = map_of kvs k))"
proof -
  from run_actions_dicts_ok [OF assms(3), of str_of hs w] obtain es er w1 where
    run: "run_actions str_of hs actions [] [] w = (Inr (es, er), w1)"
    and len: "length es = length actions" by blast
  let ?c0 = "c\<lparr>current_turn := Some (t\<lparr>confirmed := True\<rparr>), state := EXECUTING\<rparr>"
  let ?c1 = "?c0\<lparr>turns := turns c @ [t\<lparr>confirmed := True, executed_actions := PList es\<rparr>],
                   current_turn := None, state := AWAITING_USER_INPUT\<rparr>"
  have sc: "set_confirmation c True = Inr ?c0"
    using assms(1) by (simp add: set_confirmation_def Let_def)
  have ep: "execute_proposed str_of hs ?c0 w = (Inr (es, er), w1)"
    using assms(2) run by (cases actions) (simp_all add: execute_proposed_def)
  have se: "set_executed_actions ?c0 (PList es) = Inr ?c1"
    by (simp add: set_executed_actions_def)
  have pc: "process_confirmation str_of c True hs w =
        (Inr (PDict [(''confirmed'', PBool True),
                     (''executed_actions'', PList es),
                     (''response'', PStr (confirmation_response er)),
                     (''conversation_state'', PStr ''awaiting_user_input'')]),
         ?c1, snd (run_actions str_of hs actions [] [] w))"
    unfolding process_confirmation_def sc using ep se run by simp
  have idx: "\<forall>i < length actions. \<exists>m.
            execute_action str_of hs (actions ! i) []
                (snd (run_actions str_of hs (take i actions) [] [] w))
              = (Inr (es ! i, m), snd (run_actions str_of hs (take (Suc i) actions) [] [] w))"
    using run_actions_index [OF assms(3) run] by blast
  have shape: "\<forall>i < length actions. \<exists>kvs kvs'.
            actions ! i = PDict kvs \<and> es ! i = PDict kvs'
            \<and> (map_of kvs' ''status'' = Some (PStr ''executed'')
                 \<or> map_of kvs' ''status'' = Some (PStr ''failed''))
            \<and> (\<forall>k. k \<noteq> ''status'' \<and> k \<noteq> ''result'' \<and> k \<noteq> ''error''
                   \<longrightarrow> map_of kvs' k = map_of kvs k)"
  proof (intro allI impI)
    fix i assume i: "i < length actions"
    from assms(3) i obtain kvs where a: "actions ! i = PDict kvs" by (meson nth_mem)
    from idx i obtain m where
      "execute_action str_of hs (actions ! i) []
                (snd (run_actions str_of hs (take i actions) [] [] w))
              = (Inr (es ! i, m), snd (run_actions str_of hs (take (Suc i) actions) [] [] w))"
      by blast
    with a executed_entry_shape [of str_of hs kvs "[]" _ "es ! i" m]
    show "\<exists>kvs kvs'.
            actions ! i = PDict kvs \<and> es ! i = PDict kvs'
            \<and> (map_of kvs' ''status'' = Some (PStr ''executed'')
                 \<or> map_of kvs' ''status'' = Some (PStr ''failed''))
            \<and> (\<forall>k. k \<noteq> ''status'' \<and> k \<noteq> ''result'' \<and> k \<noteq> ''error''
                   \<longrightarrow> map_of kvs' k = map_of kvs k)"
      by auto
  qed
  have "turns ?c1 = turns c @ [t\<lparr>confirmed := True, executed_actions := PList es\<rparr>]"
    and "current_turn ?c1 = None" by simp_all
  with pc len idx shape show ?thesis by blast
qed

lemma missing_handler_step:
  assumes "(case map_of kvs ''type'' of None \<Rightarrow> PStr ''unknown'' | Some v \<Rightarrow> v) = PStr ty"
    and "\<forall>hs. action_handlers = Some hs \<longrightarrow> map_of hs ty = None"
  shows "\<exists>kvs'. execute_action str_of action_handlers (PDict kvs) errors w
            = (Inr (PDict kvs', errors @ [''No handler available for action type: '' @ ty]), w)
           \<and> kvs' = AList.update ''error'' (PStr ''No handler available'')
                      (AList.update ''status'' (PStr ''failed'') kvs)
           \<and> map_of kvs' ''status'' = Some (PStr ''failed'')
           \<and> map_of kvs' ''error'' = Some (PStr ''No handler available'')
           \<and> (\<forall>k. k \<noteq> ''status'' \<and> k \<noteq> ''error'' \<longrightarrow> map_of kvs' k = map_of kvs k)"
proof -
  have fh: "find_handler action_handlers (PStr ty) = Inr None"
    using assms(2) by (cases action_handlers) (auto simp: find_handler_def)
  show ?thesis
    using assms(1) fh
    by (simp add: execute_action_def try_action_def py_format_def update_conv')
qed

lemma run_actions_Cons_dict:
  assumes "execute_action str_of hs a [] w = (Inr (ea, m), w1)"
  shows "run_actions str_of hs (a # rest) ex errs w
           = run_actions str_of hs rest (ex @ [ea]) (errs @ m) w1"
  using assms by (simp add: execute_action_errors [of str_of hs a errs w])

lemmas dispatch_eval =
  execute_action_def try_action_def except_action_def find_handler_def py_format_def
  example_handlers_def note_handler_def failing_handler_def

lemma example_step1:
  "execute_action no_str (Some example_handlers)
     (PDict [(''type'', PStr ''create_note''), (''content'', PStr ''a'')]) [] 0
   = (Inr (PDict [(''type'', PStr ''create_note''), (''content'', PStr ''a''),
                  (''status'', PStr ''executed''),
                  (''result'', PDict [(''note_id'', PInt 0), (''created'', PBool True)])], []), 1)"
  by (simp add: dispatch_eval)

lemma example_step2:
  "execute_action no_str (Some example_handlers)
     (PDict [(''type'', PStr ''create_relationship'')]) [] 1
   = (Inr (PDict [(''type'', PStr ''create_relationship''),
                  (''status'', PStr ''failed''), (''error'', PStr ''store unavailable'')],
           [''Error executing create_relationship action: store unavailable'']), 1)"
  by (simp add: dispatch_eval)

lemma example_step3:
  "execute_action no_str (Some example_handlers)
     (PDict [(''type'', PStr ''create_concept''), (''name'', PStr ''c'')]) [] 1
   = (Inr (PDict [(''type'', PStr ''create_concept''), (''name'', PStr ''c''),
                  (''status'', PStr ''failed''), (''error'', PStr ''No handler available'')],
           [''No handler available for action type: create_concept'']), 1)"
  by (simp add: dispatch_eval)

lemma example_step4:
  "execute_action no_str (Some example_handlers)
     (PDict [(''type'', PStr ''create_note''), (''content'', PStr ''b'')]) [] 1
   = (Inr (PDict [(''type'', PStr ''create_note''), (''content'', PStr ''b''),
                  (''status'', PStr ''executed''),
                  (''result'', PDict [(''note_id'', PInt 1), (''created'', PBool True)])], []), 2)"
  by (simp add: dispatch_eval)

lemma example_run:
  "run_actions no_str (Some example_handlers) example_actions [] [] 0 =
     (Inr ([PDict [(''type'', PStr ''create_note''), (''content'', PStr ''a''),
                   (''status'', PStr ''executed''),
                   (''result'', PDict [(''note_id'', PInt 0), (''created'', PBool True)])],
            PDict [(''type'', PStr ''create_relationship''),
                   (''status'', PStr ''failed''), (''error'', PStr ''store unavailable'')],
            PDict [(''type'', PStr ''create_concept''), (''name'', PStr ''c''),
                   (''status'', PStr ''failed''), (''error'', PStr ''No handler available'')],
            PDict [(''type'', PStr ''create_note''), (''content'', PStr ''b''),
                   (''status'', PStr ''executed''),
                   (''result'', PDict [(''note_id'', PInt 1), (''created'', PBool True)])]],
           [''Error executing create_relationship action: store unavailable'',
            ''No handler available for action type: create_concept'']),
      2)"
  unfolding example_actions_def
  by (subst run_actions_Cons_dict [OF example_step1],
      subst run_actions_Cons_dict [OF example_step2],
      subst run_actions_Cons_dict [OF example_step3],
      subst run_actions_Cons_dict [OF example_step4]) simp

theorem confirmed_batch_dispatch_witness:
  "current_turn example_conversation = Some example_turn
   \<and> proposed_actions example_turn = PList example_actions
   \<and> (\<exists>executed errors c1.
        process_confirmation no_str example_conversation True (Some example_handlers) 0 =
          (Inr (PDict [(''confirmed'', PBool True),
                       (''executed_actions'', PList executed),
                       (''response'', PStr (confirmation_response errors)),
                       (''conversation_state'', PStr ''awaiting_user_input'')]),
           c1, 2)
        \<and> current_turn c1 = None
        \<and> length executed = 4)"
proof -
  have h1: "current_turn example_conversation = Some example_turn"
    by (simp add: example_conversation_def)
  have h2: "proposed_actions example_turn = PList example_actions"
    by (simp add: example_turn_def)
  have h3: "\<forall>a \<in> set example_actions. \<exists>kvs. a = PDict kvs"
    by (simp add: example_actions_def)
  have w: "snd (run_actions no_str (Some example_handlers) example_actions [] [] 0) = 2"
    by (simp only: example_run snd_conv)
  have l: "length example_actions = 4" by (simp add: example_actions_def)
  from confirmed_batch_dispatch [OF h1 h2 h3, of no_str "Some example_handlers" 0]
  obtain executed errors c1 where r:
    "process_confirmation no_str example_conversation True (Some example_handlers) 0 =
        (Inr (PDict [(''confirmed'', PBool True),
                     (''executed_actions'', PList executed),
                     (''response'', PStr (confirmation_response errors)),
                     (''conversation_state'', PStr ''awaiting_user_input'')]),
         c1, snd (run_actions no_str (Some example_handlers) example_actions [] [] 0))"
    "current_turn c1 = None" "length executed = length example_actions"
    by (elim exE conjE) (rule that)
  from r(1) have r1:
    "process_confirmation no_str example_conversation True (Some example_handlers) 0 =
        (Inr (PDict [(''confirmed'', PBool True),
                     (''executed_actions'', PList executed),
                     (''response'', PStr (confirmation_response errors)),
                     (''conversation_state'', PStr ''awaiting_user_input'')]),
         c1, 2)"
    by (simp only: w)
  from r(3) have r3: "length executed = 4" by (simp only: l)
  from r1 r(2) r3 have
    "\<exists>executed errors c1.
        process_confirmation no_str example_conversation True (Some example_handlers) 0 =
          (Inr (PDict [(''confirmed'', PBool True),
                       (''executed_actions'', PList executed),
                       (''response'', PStr (confirmation_response errors)),
                       (''conversation_state'', PStr ''awaiting_user_input'')]),
           c1, 2)
        \<and> current_turn c1 = None
        \<and> length executed = 4"
    by (intro exI conjI)
  with h1 h2 show ?thesis by (intro conjI)
qed

text \<open>
  C8 as stated fails: the error field of the executed action does not name the type.
\<close>

theorem missing_handler_error_counterexample:
  "fst (execute_action no_str (Some example_handlers)
          (PDict [(''type'', PStr ''create_concept'')]) [] 0)
     = Inr (PDict [(''type'', PStr ''create_concept''),
                   (''status'', PStr ''failed''),
                   (''error'', PStr ''No handler available'')],
            [''No handler available for action type: create_concept''])
   \<and> fst (execute_action no_str (Some example_handlers)
          (PDict [(''type'', PStr ''create_concept'')]) [] 0)
     \<noteq> Inr (PDict [(''type'', PStr ''create_concept''),
                   (''status'', PStr ''failed''),
                   (''error'', PStr ''No handler available for action type: create_concept'')],
            [''No handler available for action type: create_concept''])"
  by (simp add: dispatch_eval)

lemma py_join_member:
  "x \<in> set xs \<Longrightarrow> \<exists>pre post. py_join sep xs = pre @ x @ post"
proof (induction sep xs rule: py_join.induct)
  case (1 sep)
  then show ?case by simp
next
  case (2 sep y)
  then have "py_join sep [y] = [] @ x @ []" by simp
  then show ?case by blast
next
  case (3 sep y z zs)
  show ?case
  proof (cases "x = y")
    case True
    then have "py_join sep (y # z # zs) = [] @ x @ (sep @ py_join sep (z # zs))" by simp
    then show ?thesis by blast
  next
    case False
    with "3.prems" have "x \<in> set (z # zs)" by simp
    from "3.IH" [OF this] obtain pre post where "py_join sep (z # zs) = pre @ x @ post" by blast
    then have "py_join sep (y # z # zs) = (y @ sep @ pre) @ x @ post" by simp
    then show ?thesis by blast
  qed
qed

lemma run_actions_index_errors:
  assumes dicts: "\<forall>a \<in> set xs. \<exists>kvs. a = PDict kvs"
    and run: "run_actions str_of hs xs [] [] w = (Inr (es, er), w1)"
    and i: "i < length xs"
  shows "\<exists>m. execute_action str_of hs (xs ! i) [] (snd (run_actions str_of hs (take i xs) [] [] w))
            = (Inr (es ! i, m), snd (run_actions str_of hs (take (Suc i) xs) [] [] w))
           \<and> set m \<subseteq> set er"
proof -
  have d1: "\<forall>a \<in> set (take i xs). \<exists>kvs. a = PDict kvs"
    using dicts by (meson in_set_takeD)
  from run_actions_dicts_ok [OF d1, of str_of hs w] obtain es1 er1 wi where
    p: "run_actions str_of hs (take i xs) [] [] w = (Inr (es1, er1), wi)" "length es1 = length (take i xs)"
    by blast
  from dicts i obtain kvs where a: "xs ! i = PDict kvs" by (meson nth_mem)
  obtain ea m w2 where e: "execute_action str_of hs (xs ! i) [] wi = (Inr (ea, m), w2)"
    using execute_action_dict [of str_of hs kvs wi] a by auto
  have tk: "take (Suc i) xs = take i xs @ [xs ! i]"
    using i by (simp add: take_Suc_conv_app_nth)
  have p1: "run_actions str_of hs (take (Suc i) xs) [] [] w = (Inr (es1 @ [ea], er1 @ m), w2)"
    unfolding tk run_actions_append
    using p(1) e by (simp add: execute_action_errors [of str_of hs "xs ! i" er1 wi])
  have "xs = take (Suc i) xs @ drop (Suc i) xs" by simp
  then have "run_actions str_of hs xs [] [] w
      = run_actions str_of hs (drop (Suc i) xs) (es1 @ [ea]) (er1 @ m) w2"
    using run_actions_append [of str_of hs "take (Suc i) xs" "drop (Suc i) xs" "[]" "[]" w] p1
    by simp
  also have "\<dots> = (case run_actions str_of hs (drop (Suc i) xs) [] [] w2 of
        (Inl e, w3) \<Rightarrow> (Inl e, w3)
      | (Inr (es2, er2), w3) \<Rightarrow> (Inr ((es1 @ [ea]) @ es2, (er1 @ m) @ er2), w3))"
    by (rule run_actions_acc)
  finally have "\<exists>es2 er2. es = (es1 @ [ea]) @ es2 \<and> er = (er1 @ m) @ er2"
    using run by (auto split: prod.splits sum.splits)
  then obtain es2 er2 where s: "es = (es1 @ [ea]) @ es2" "er = (er1 @ m) @ er2" by blast
  have "length es1 = i" using p(2) i by simp
  with s(1) have "es ! i = ea" by (simp add: nth_append)
  moreover from s(2) have "set m \<subseteq> set er" by auto
  ultimately show ?thesis using p(1) p1 e by simp
qed

lemma process_confirmation_run:
  assumes "current_turn c = Some t"
    and "proposed_actions t = PList actions"
    and "run_actions str_of hs actions [] [] w = (Inr (es, er), w1)"
  shows "process_confirmation str_of c True hs w =
        (Inr (PDict [(''confirmed'', PBool True),
                     (''executed_actions'', PList es),
                     (''response'', PStr (confirmation_response er)),
                     (''conversation_state'', PStr ''awaiting_user_input'')]),
         c\<lparr>turns := turns c @ [t\<lparr>confirmed := True, executed_actions := PList es\<rparr>],
           current_turn := None, state := AWAITING_USER_INPUT\<rparr>,
         w1)"
proof -
  let ?c0 = "c\<lparr>current_turn := Some (t\<lparr>confirmed := True\<rparr>), state := EXECUTING\<rparr>"
  have sc: "set_confirmation c True = Inr ?c0"
    using assms(1) by (simp add: set_confirmation_def Let_def)
  have ep: "execute_proposed str_of hs ?c0 w = (Inr (es, er), w1)"
    using assms(2,3) by (cases actions) (simp_all add: execute_proposed_def)
  show ?thesis
    unfolding process_confirmation_def sc using ep
    by (simp add: set_executed_actions_def)
qed

text \<open>
  C8, amended: for an action of a confirmed batch whose type is a string that the
  registry does not hold (or when there is no registry), the loop body produces an
  executed action with status \<open>failed\<close> and the error field \<^verbatim>\<open>No handler available\<close>,
  which keeps the other fields of the action. The message
  \<^verbatim>\<open>No handler available for action type: <type>\<close> is appended to the error list of
  the batch and so occurs in the response text that \<open>process_confirmation\<close> returns,
  after the fixed prefix. No handler runs for the action: the world after its dispatch
  is the world before it.
\<close>

theorem missing_handler_failed:
  assumes "current_turn c = Some t"
    and "proposed_actions t = PList actions"
    and "\<forall>a \<in> set actions. \<exists>kvs. a = PDict kvs"
    and "i < length actions"
    and "actions ! i = PDict kvs"
    and "(case map_of kvs ''type'' of None \<Rightarrow> PStr ''unknown'' | Some v \<Rightarrow> v) = PStr ty"
    and "\<forall>hs. action_handlers = Some hs \<longrightarrow> map_of hs ty = None"
    and "msg = ''No handler available for action type: '' @ ty"
    and "failed = PDict (AList.update ''error'' (PStr ''No handler available'')
                          (AList.update ''status'' (PStr ''failed'') kvs))"
  shows "(\<forall>errors w0. execute_action str_of action_handlers (PDict kvs) errors w0
             = (Inr (failed, errors @ [msg]), w0))
    \<and> (\<exists>kvs'. failed = PDict kvs'
           \<and> map_of kvs' ''status'' = Some (PStr ''failed'')
           \<and> map_of kvs' ''error'' = Some (PStr ''No handler available'')
           \<and> (\<forall>k. k \<noteq> ''status'' \<and> k \<noteq> ''error'' \<longrightarrow> map_of kvs' k = map_of kvs k))
    \<and> (\<exists>executed errs c1 pre post.
          process_confirmation str_of c True action_handlers w =
            (Inr (PDict [(''confirmed'', PBool True),
                         (''executed_actions'', PList executed),
                         (''response'',
                            PStr (''Some actions could not be completed: '' @ py_join ''; '' errs)),
                         (''conversation_state'', PStr ''awaiting_user_input'')]),
             c1, snd (run_actions str_of action_handlers actions [] [] w))
          \<and> executed ! i = failed
          \<and> msg \<in> set errs
          \<and> py_join ''; '' errs = pre @ msg @ post
          \<and> snd (run_actions str_of action_handlers (take (Suc i) actions) [] [] w)
              = snd (run_actions str_of action_handlers (take i actions) [] [] w))"
proof -
  have step: "\<And>errors w0. execute_action str_of action_handlers (PDict kvs) errors w0
             = (Inr (failed, errors @ [msg]), w0)"
    using missing_handler_step [OF assms(6,7), of str_of] by (simp add: assms(8,9))
  have shape: "\<exists>kvs'. failed = PDict kvs'
           \<and> map_of kvs' ''status'' = Some (PStr ''failed'')
           \<and> map_of kvs' ''error'' = Some (PStr ''No handler available'')
           \<and> (\<forall>k. k \<noteq> ''status'' \<and> k \<noteq> ''error'' \<longrightarrow> map_of kvs' k = map_of kvs k)"
    by (simp add: assms(9) update_conv')
  from run_actions_dicts_ok [OF assms(3), of str_of action_handlers w] obtain es er w1 where
    run: "run_actions str_of action_handlers actions [] [] w = (Inr (es, er), w1)" by blast
  from run_actions_index_errors [OF assms(3) run assms(4)] obtain m where
    idx: "execute_action str_of action_handlers (actions ! i) []
            (snd (run_actions str_of action_handlers (take i actions) [] [] w))
          = (Inr (es ! i, m), snd (run_actions str_of action_handlers (take (Suc i) actions) [] [] w))"
    and sub: "set m \<subseteq> set er" by blast
  from idx step [of "[]" "snd (run_actions str_of action_handlers (take i actions) [] [] w)"]
  have ei: "es ! i = failed" and m: "m = [msg]"
    and same: "snd (run_actions str_of action_handlers (take (Suc i) actions) [] [] w)
                 = snd (run_actions str_of action_handlers (take i actions) [] [] w)"
    by (simp_all add: assms(5))
  from sub m have mem: "msg \<in> set er" by simp
  then have ne: "er \<noteq> []" by auto
  from py_join_member [OF mem, of "''; ''"] obtain pre post where
    j: "py_join ''; '' er = pre @ msg @ post" by blast
  have pc: "process_confirmation str_of c True action_handlers w =
            (Inr (PDict [(''confirmed'', PBool True),
                         (''executed_actions'', PList es),
                         (''response'',
                            PStr (''Some actions could not be completed: '' @ py_join ''; '' er)),
                         (''conversation_state'', PStr ''awaiting_user_input'')]),
             c\<lparr>turns := turns c @ [t\<lparr>confirmed := True, executed_actions := PList es\<rparr>],
               current_turn := None, state := AWAITING_USER_INPUT\<rparr>,
             snd (run_actions str_of action_handlers actions [] [] w))"
    using process_confirmation_run [OF assms(1,2) run, of] ne run
    by (simp add: confirmation_response_def)
  from pc ei mem j same have "\<exists>executed errs c1 pre post.
          process_confirmation str_of c True action_handlers w =
            (Inr (PDict [(''confirmed'', PBool True),
                         (''executed_actions'', PList executed),
                         (''response'',
                            PStr (''Some actions could not be completed: '' @ py_join ''; '' errs)),
                         (''conversation_state'', PStr ''awaiting_user_input'')]),
             c1, snd (run_actions str_of action_handlers actions [] [] w))
          \<and> executed ! i = failed
          \<and> msg \<in> set errs
          \<and> py_join ''; '' errs = pre @ msg @ post
          \<and> snd (run_actions str_of action_handlers (take (Suc i) actions) [] [] w)
              = snd (run_actions str_of action_handlers (take i actions) [] [] w)"
    by (intro exI conjI)
  with step shape show ?thesis by (intro conjI allI)
qed

theorem missing_handler_failed_witness:
  "execute_action no_str (Some example_handlers)
       (PDict [(''type'', PStr ''create_concept''), (''name'', PStr ''c'')]) [] (0::nat)
     = (Inr (PDict [(''type'', PStr ''create_concept''), (''name'', PStr ''c''),
                    (''status'', PStr ''failed''), (''error'', PStr ''No handler available'')],
             [''No handler available for action type: create_concept'']), 0)
   \<and> (\<exists>executed errs c1 pre post.
          process_confirmation no_str example_conversation True (Some example_handlers) 0 =
            (Inr (PDict [(''confirmed'', PBool True),
                         (''executed_actions'', PList executed),
                         (''response'',
                            PStr (''Some actions could not be completed: '' @ py_join ''; '' errs)),
                         (''conversation_state'', PStr ''awaiting_user_input'')]),
             c1, 2)
          \<and> executed ! 2
              = PDict [(''type'', PStr ''create_concept''), (''name'', PStr ''c''),
                       (''status'', PStr ''failed''), (''error'', PStr ''No handler available'')]
          \<and> py_join ''; '' errs
              = pre @ ''No handler available for action type: create_concept'' @ post)"
proof -
  let ?kvs = "[(''type'', PStr ''create_concept''), (''name'', PStr ''c'')]"
  let ?failed = "PDict (AList.update ''error'' (PStr ''No handler available'')
                          (AList.update ''status'' (PStr ''failed'') ?kvs))"
  let ?msg = "''No handler available for action type: '' @ ''create_concept''"
  have h1: "current_turn example_conversation = Some example_turn"
    by (simp add: example_conversation_def)
  have h2: "proposed_actions example_turn = PList example_actions"
    by (simp add: example_turn_def)
  have h3: "\<forall>a \<in> set example_actions. \<exists>kvs. a = PDict kvs"
    by (simp add: example_actions_def)
  have h4: "2 < length example_actions" by (simp add: example_actions_def)
  have h5: "example_actions ! 2 = PDict ?kvs" by (simp add: example_actions_def)
  have h6: "(case map_of ?kvs ''type'' of None \<Rightarrow> PStr ''unknown'' | Some v \<Rightarrow> v)
              = PStr ''create_concept''"
    by simp
  have h7: "\<forall>hs. Some example_handlers = Some hs \<longrightarrow> map_of hs ''create_concept'' = None"
    by (simp add: example_handlers_def)
  have fl: "?failed = PDict [(''type'', PStr ''create_concept''), (''name'', PStr ''c''),
                       (''status'', PStr ''failed''), (''error'', PStr ''No handler available'')]"
    by simp
  have ms: "?msg = ''No handler available for action type: create_concept''" by simp
  have w: "snd (run_actions no_str (Some example_handlers) example_actions [] [] 0) = 2"
    by (simp only: example_run snd_conv)
  note T = missing_handler_failed [where str_of = no_str and w = "0::nat",
      OF h1 h2 h3 h4 h5 h6 h7 refl refl]
  from T have "\<forall>errors w0. execute_action no_str (Some example_handlers) (PDict ?kvs) errors w0
             = (Inr (?failed, errors @ [?msg]), w0)"
    by (rule conjunct1)
  then have "execute_action no_str (Some example_handlers) (PDict ?kvs) [] (0::nat)
             = (Inr (?failed, [] @ [?msg]), 0)"
    by blast
  then have g1: "execute_action no_str (Some example_handlers) (PDict ?kvs) [] (0::nat)
     = (Inr (PDict [(''type'', PStr ''create_concept''), (''name'', PStr ''c''),
                    (''status'', PStr ''failed''), (''error'', PStr ''No handler available'')],
             [''No handler available for action type: create_concept'']), 0)"
    by (simp only: fl ms append_Nil)
  from T obtain executed errs c1 pre post where r:
    "process_confirmation no_str example_conversation True (Some example_handlers) 0 =
            (Inr (PDict [(''confirmed'', PBool True),
                         (''executed_actions'', PList executed),
                         (''response'',
                            PStr (''Some actions could not be completed: '' @ py_join ''; '' errs)),
                         (''conversation_state'', PStr ''awaiting_user_input'')]),
             c1, snd (run_actions no_str (Some example_handlers) example_actions [] [] 0))"
    "executed ! 2 = ?failed"
    "py_join ''; '' errs = pre @ ?msg @ post"
    by (elim exE conjE) (rule that)
  from r(1) have r1:
    "process_confirmation no_str example_conversation True (Some example_handlers) 0 =
            (Inr (PDict [(''confirmed'', PBool True),
                         (''executed_actions'', PList executed),
                         (''response'',
                            PStr (''Some actions could not be completed: '' @ py_join ''; '' errs)),
                         (''conversation_state'', PStr ''awaiting_user_input'')]),
             c1, 2)"
    by (simp only: w)
  from r(2) have r2: "executed ! 2
              = PDict [(''type'', PStr ''create_concept''), (''name'', PStr ''c''),
                       (''status'', PStr ''failed''), (''error'', PStr ''No handler available'')]"
    by (simp only: fl)
  from r(3) have r3: "py_join ''; '' errs
              = pre @ ''No handler available for action type: create_concept'' @ post"
    by (simp only: ms)
  from r1 r2 r3 have "\<exists>executed errs c1 pre post.
          process_confirmation no_str example_conversation True (Some example_handlers) 0 =
            (Inr (PDict [(''confirmed'', PBool True),
                         (''executed_actions'', PList executed),
                         (''response'',
                            PStr (''Some actions could not be completed: '' @ py_join ''; '' errs)),
                         (''conversation_state'', PStr ''awaiting_user_input'')]),
             c1, 2)
          \<and> executed ! 2
              = PDict [(''type'', PStr ''create_concept''), (''name'', PStr ''c''),
                       (''status'', PStr ''failed''), (''error'', PStr ''No handler available'')]
          \<and> py_join ''; '' errs
              = pre @ ''No handler available for action type: create_concept'' @ post"
    by (intro exI conjI)
  with g1 show ?thesis by (intro conjI)
qed

section \<open>Claims about user input\<close>

lemma process_user_input_raises:
  "process_user_input query loads c ui ctx h =
     (Inl (ValueError (''Invalid format specifier '' @ [CHR 0x27] @ template_example_spec @ [CHR 0x27]
             @ '' for object of type '' @ [CHR 0x27] @ ''str'' @ [CHR 0x27])),
      start_new_turn c ui, h)"
  by (simp add: process_user_input_def create_analysis_prompt_def Let_def)


text \<open>
  C10: with a non-empty context list of the caller and a non-empty user input,
  \<open>process_user_input\<close> raises the \<^verbatim>\<open>ValueError\<close> of the prompt template before it
  reaches the statements that append the history entry: the caller's list is as before.
\<close>

theorem context_list_not_appended:
  "fst (process_user_input (AIManager_query example_build_prompt chat_plain) decode_example
          (Conversation_init None) ''hello'' (Some 0) [[PDict [(''type'', PStr ''note'')]]])
     = Inl (ValueError (''Invalid format specifier '' @ [CHR 0x27] @ template_example_spec @ [CHR 0x27]
             @ '' for object of type '' @ [CHR 0x27] @ ''str'' @ [CHR 0x27]))
   \<and> snd (snd (process_user_input (AIManager_query example_build_prompt chat_plain) decode_example
          (Conversation_init None) ''hello'' (Some 0) [[PDict [(''type'', PStr ''note'')]]]))
     = [[PDict [(''type'', PStr ''note'')]]]"
  by (simp add: process_user_input_raises)

end
